theory Spec2Isabelle
  imports Complex_Main
begin

unbundle bit_operations_syntax

section \<open>The bridge of pymavlink\_bridge.py as state-passing functions\<close>

text \<open>
  The source is one Python class, \<open>PymavlinkBridge\<close>, whose methods mutate the fields of
  the object, write JSON lines to standard output and send commands through a MAVLink
  connection. Here every method is a function from the world before the call to an
  outcome and the world after it.

  Conventions of the embedding:
  \<^item> Python values that reach the program untyped (JSON payloads, attributes of a decoded
    message) are values of \<open>pyval\<close>; a Python dict with string keys is an association
    list whose keys are distinct, read with \<open>map_of\<close>.
  \<^item> Python floats are real numbers extended by the two infinities and NaN. Arithmetic on
    finite floats is exact: rounding and the overflow of a conversion from a huge integer
    are outside the model.
  \<^item> Strings are byte strings, so \<open>upper\<close> and \<open>strip\<close> are the ASCII ones.
  \<^item> An exception is a value of \<open>error\<close>, returned beside the world in which it was
    raised, so that what was mutated before the raise stays mutated.
  \<^item> Functions of the interpreter and of the pymavlink library that the source only calls
    (\<open>float\<close> on a string, \<open>str\<close>, number formatting, \<open>base64.b64encode\<close>,
    \<open>mavutil.mode_string_v10\<close>, the \<open>MAV_STATE\<close> enumeration) are fields of the
    environment record \<open>env\<close>, as are the configuration read at start-up and the clock.
\<close>

subsection \<open>Python values\<close>

datatype pyfloat = Fin real | PosInf | NegInf | NaN

datatype pyval =
    PNone
  | PBool bool
  | PInt int
  | PFloat pyfloat
  | PStr string
  | PList "pyval list"
  | PDict "(string \<times> pyval) list"

datatype exc_class =
    RuntimeError | ValueError | TypeError | TimeoutError | AttributeError | OverflowError

text \<open>
  An exception: its class and the text that \<open>str(exc)\<close> gives. For an exception that the
  program raises itself the text is the one in the source; for one that the interpreter
  raises it is a short form of the interpreter's message.
\<close>

datatype error = Raised exc_class string

fun exc_text :: "error \<Rightarrow> string" where
  "exc_text (Raised c m) = m"

text \<open>Truth value of a Python object, as \<open>if not x\<close> and \<open>x or y\<close> test it.\<close>

fun truthy :: "pyval \<Rightarrow> bool" where
  "truthy PNone = False"
| "truthy (PBool b) = b"
| "truthy (PInt i) = (i \<noteq> 0)"
| "truthy (PFloat f) = (f \<noteq> Fin 0)"
| "truthy (PStr s) = (s \<noteq> [])"
| "truthy (PList xs) = (xs \<noteq> [])"
| "truthy (PDict kvs) = (kvs \<noteq> [])"

text \<open>\<open>d.get(k)\<close> on a dict: the value, or \<open>None\<close> for a missing key.\<close>

definition dict_get :: "(string \<times> pyval) list \<Rightarrow> string \<Rightarrow> pyval" where
  "dict_get d k = (case map_of d k of None \<Rightarrow> PNone | Some v \<Rightarrow> v)"

text \<open>\<open>int(x)\<close> on a float truncates towards zero and raises on a non-finite value.\<close>

definition trunc :: "real \<Rightarrow> int" where
  "trunc r = (if 0 \<le> r then \<lfloor>r\<rfloor> else \<lceil>r\<rceil>)"

fun int_of_float :: "pyfloat \<Rightarrow> error + int" where
  "int_of_float (Fin r) = Inr (trunc r)"
| "int_of_float NaN = Inl (Raised ValueError ''cannot convert float NaN to integer'')"
| "int_of_float f = Inl (Raised OverflowError ''cannot convert float infinity to integer'')"

text \<open>Numeric operands of \<open>/\<close>, \<open>==\<close> and \<open>>\<close>: bool, int and float, read as a float.\<close>

fun num_val :: "pyval \<Rightarrow> pyfloat option" where
  "num_val (PBool b) = Some (Fin (if b then 1 else 0))"
| "num_val (PInt i) = Some (Fin (of_int i))"
| "num_val (PFloat f) = Some f"
| "num_val v = None"

text \<open>Division of a float by a positive finite constant.\<close>

fun fdiv :: "pyfloat \<Rightarrow> real \<Rightarrow> pyfloat" where
  "fdiv (Fin r) d = Fin (r / d)"
| "fdiv f d = f"

fun fmul :: "pyfloat \<Rightarrow> real \<Rightarrow> pyfloat" where
  "fmul (Fin r) d = Fin (r * d)"
| "fmul f d = f"

text \<open>\<open>a >= b\<close> and \<open>a > b\<close> on floats; every comparison with NaN is false.\<close>

fun fge :: "pyfloat \<Rightarrow> pyfloat \<Rightarrow> bool" where
  "fge NaN b = False"
| "fge a NaN = False"
| "fge PosInf b = True"
| "fge a NegInf = True"
| "fge (Fin x) (Fin y) = (y \<le> x)"
| "fge a b = False"

definition fgt :: "pyfloat \<Rightarrow> pyfloat \<Rightarrow> bool" where
  "fgt a b = (fge a b \<and> a \<noteq> b)"

text \<open>\<open>v == n\<close> for an integer constant \<open>n\<close>.\<close>

definition eq_int :: "pyval \<Rightarrow> int \<Rightarrow> bool" where
  "eq_int v n = (num_val v = Some (Fin (of_int n)))"

text \<open>\<open>v / d\<close> for a positive float constant \<open>d\<close>: a TypeError on a non-number.\<close>

definition truediv :: "pyval \<Rightarrow> real \<Rightarrow> error + pyfloat" where
  "truediv v d =
     (case num_val v of
        Some f \<Rightarrow> Inr (fdiv f d)
      | None \<Rightarrow> Inl (Raised TypeError ''unsupported operand type(s) for /''))"

text \<open>\<open>v & n\<close> for an integer constant \<open>n\<close>: defined on int and bool only.\<close>

fun bit_and :: "pyval \<Rightarrow> int \<Rightarrow> error + int" where
  "bit_and (PInt i) n = Inr (i AND n)"
| "bit_and (PBool b) n = Inr ((if b then 1 else 0) AND n)"
| "bit_and v n = Inl (Raised TypeError ''unsupported operand type(s) for &'')"

text \<open>ASCII \<open>str.upper\<close>, \<open>str.strip\<close> and \<open>str.rstrip(c)\<close>.\<close>

definition upper_char :: "char \<Rightarrow> char" where
  "upper_char c =
     (case map_of (zip ''abcdefghijklmnopqrstuvwxyz'' ''ABCDEFGHIJKLMNOPQRSTUVWXYZ'') c of
        Some u \<Rightarrow> u
      | None \<Rightarrow> c)"

definition upper :: "string \<Rightarrow> string" where
  "upper s = map upper_char s"

definition is_space :: "char \<Rightarrow> bool" where
  "is_space c =
     (c \<in> set [CHR 0x09, CHR 0x0A, CHR 0x0B, CHR 0x0C, CHR 0x0D,
                 CHR 0x1C, CHR 0x1D, CHR 0x1E, CHR 0x1F, CHR 0x20])"

definition strip :: "string \<Rightarrow> string" where
  "strip s = rev (dropWhile is_space (rev (dropWhile is_space s)))"

definition rstrip :: "char \<Rightarrow> string \<Rightarrow> string" where
  "rstrip c s = rev (dropWhile (\<lambda>x. x = c) (rev s))"

subsection \<open>The fields of the object\<close>

text \<open>\<open>self.state\<close>: the telemetry snapshot, with the keys of the dict as fields.\<close>

record vehicle_state =
  lat :: "pyfloat option"
  lon :: "pyfloat option"
  alt :: "pyfloat option"
  relative_alt :: "pyfloat option"
  gps_fix_type :: pyval
  satellites_visible :: pyval
  hdop :: "pyfloat option"
  baro_alt :: "pyfloat option"
  heading :: "pyfloat option"
  climb :: "pyfloat option"
  last_slam_timestamp :: "int option"
  last_slam_host_timestamp :: "int option"
  last_slam_delta_ms :: "int option"
  last_gps_host_timestamp :: "int option"
  last_gps_vehicle_timestamp :: "int option"
  last_gps_vehicle_skew_ms :: "int option"
  last_log_delta_ms :: "int option"
  armed :: bool
  ready :: bool
  status :: string
  system_status :: string
  mode :: string
  mode_id :: pyval
  system_id :: "int option"
  component_id :: "int option"
  statusTimestamp :: "int option"

text \<open>\<open>self.latest_slam\<close> and \<open>self.latest_mav\<close>.\<close>

record slam_sample =
  slam_timestamp :: "int option"
  slam_x :: "pyfloat option"
  slam_y :: "pyfloat option"
  slam_z :: "pyfloat option"
  slam_qw :: "pyfloat option"
  slam_qx :: "pyfloat option"
  slam_qy :: "pyfloat option"
  slam_qz :: "pyfloat option"

record mav_sample =
  mav_timestamp :: "int option"
  mav_lat :: "pyfloat option"
  mav_lon :: "pyfloat option"
  mav_alt :: "pyfloat option"
  mav_rel :: "pyfloat option"

text \<open>
  What the source uses of the connection \<open>self.master\<close>: the target addresses and the
  result of \<open>mode_mapping()\<close>, which is a dict or \<open>None\<close>.
\<close>

record link =
  target_system :: int
  target_component :: int
  mode_mapping :: "(string \<times> int) list option"

text \<open>
  The object. \<open>connection_string\<close>, \<open>command_queue\<close> and \<open>master_lock\<close> are left out:
  no method modelled here reads them.
\<close>

record bridge =
  master :: "link option"
  state :: vehicle_state
  debug_timing :: bool
  vehicle_boot_offset :: "int option"
  last_vehicle_boot_ms :: "int option"
  status_hold_until :: real
  logging_active :: bool
  csv_rows :: "pyval list list"
  latest_slam :: slam_sample
  latest_mav :: mav_sample

text \<open>
  The JSON objects written by \<open>emit\<close>: a log line (message, level), a telemetry snapshot,
  and a command result (type, \<open>ok\<close>, \<open>request_id\<close>, the remaining keys).
\<close>

datatype event =
    Log string string
  | Telemetry vehicle_state
  | CmdResult string bool pyval "(string \<times> pyval) list"

text \<open>
  What goes out through the link: \<open>command_long_send\<close> (target system, target component,
  command, confirmation, seven parameters) and \<open>set_mode_send\<close>.
\<close>

datatype mav_cmd =
    CommandLong int int int int "pyval list"
  | SetModeSend int int int

text \<open>A decoded message: its type, its attributes, and the source addresses.\<close>

record msg =
  mtype :: string
  attrs :: "(string \<times> pyval) list"
  src_system :: int
  src_component :: int

text \<open>
  The world of one thread of the program: the shared object, the monotonic clock, and what
  this thread has written to standard output and sent through the link, oldest first.
\<close>

record world =
  obj :: bridge
  clock :: real
  emitted :: "event list"
  sent :: "mav_cmd list"

text \<open>
  The environment. \<open>time_time t\<close> is what \<open>time.time()\<close> returns at the monotonic
  instant \<open>t\<close>. A call of \<open>time.sleep(0.5)\<close> that starts at the instant \<open>t\<close> returns at
  \<open>t + 0.5 + \<bar>lag t\<bar>\<close>, and meanwhile the other threads turn the object \<open>b\<close> into
  \<open>others t b\<close>; between two sleeps a thread runs without delay and undisturbed.
\<close>

record env =
  parse_float :: "string \<Rightarrow> pyfloat option"
  str_of :: "pyval \<Rightarrow> string"
  fmt_1f :: "pyfloat \<Rightarrow> string"
  b64encode :: "string \<Rightarrow> string"
  mode_string_v10 :: "msg \<Rightarrow> string"
  mav_state_name :: "pyval \<Rightarrow> string option"
  status_hold_seconds :: real
  time_time :: "real \<Rightarrow> real"
  lag :: "real \<Rightarrow> real"
  others :: "real \<Rightarrow> bridge \<Rightarrow> bridge"

text \<open>The constants of \<open>mavutil.mavlink\<close> that the source names (MAVLink common dialect).\<close>

definition MAV_MODE_FLAG_CUSTOM_MODE_ENABLED :: int where
  "MAV_MODE_FLAG_CUSTOM_MODE_ENABLED = 1"

definition MAV_MODE_FLAG_AUTO_ENABLED :: int where
  "MAV_MODE_FLAG_AUTO_ENABLED = 4"

definition MAV_MODE_FLAG_GUIDED_ENABLED :: int where
  "MAV_MODE_FLAG_GUIDED_ENABLED = 8"

definition MAV_MODE_FLAG_STABILIZE_ENABLED :: int where
  "MAV_MODE_FLAG_STABILIZE_ENABLED = 16"

definition MAV_MODE_FLAG_SAFETY_ARMED :: int where
  "MAV_MODE_FLAG_SAFETY_ARMED = 128"

definition MAV_STATE_STANDBY :: int where
  "MAV_STATE_STANDBY = 3"

definition MAV_STATE_ACTIVE :: int where
  "MAV_STATE_ACTIVE = 4"

definition MAV_CMD_NAV_TAKEOFF :: int where
  "MAV_CMD_NAV_TAKEOFF = 22"

definition MAV_CMD_DO_SET_MODE :: int where
  "MAV_CMD_DO_SET_MODE = 176"

definition MAV_CMD_COMPONENT_ARM_DISARM :: int where
  "MAV_CMD_COMPONENT_ARM_DISARM = 400"

definition MODE_EXTRA_FLAGS :: "(string \<times> int) list" where
  "MODE_EXTRA_FLAGS =
     [(''GUIDED'', MAV_MODE_FLAG_GUIDED_ENABLED),
      (''AUTO'', MAV_MODE_FLAG_AUTO_ENABLED),
      (''RTL'', MAV_MODE_FLAG_AUTO_ENABLED),
      (''STABILIZE'', MAV_MODE_FLAG_STABILIZE_ENABLED)]"

text \<open>The object as \<open>__init__\<close> leaves it.\<close>

definition init_state :: vehicle_state where
  "init_state =
     \<lparr>lat = None, lon = None, alt = None, relative_alt = None,
      gps_fix_type = PNone, satellites_visible = PNone,
      hdop = None, baro_alt = None, heading = None, climb = None,
      last_slam_timestamp = None, last_slam_host_timestamp = None,
      last_slam_delta_ms = None, last_gps_host_timestamp = None,
      last_gps_vehicle_timestamp = None, last_gps_vehicle_skew_ms = None,
      last_log_delta_ms = None,
      armed = False, ready = False, status = ''Idle'', system_status = ''Unknown'',
      mode = ''Unknown'', mode_id = PNone, system_id = None, component_id = None,
      statusTimestamp = None\<rparr>"

definition init_bridge :: "bool \<Rightarrow> bridge" where
  "init_bridge dbg =
     \<lparr>master = None, state = init_state, debug_timing = dbg,
      vehicle_boot_offset = None, last_vehicle_boot_ms = None,
      status_hold_until = 0, logging_active = False, csv_rows = [],
      latest_slam = \<lparr>slam_timestamp = None, slam_x = None, slam_y = None, slam_z = None,
                      slam_qw = None, slam_qx = None, slam_qy = None, slam_qz = None\<rparr>,
      latest_mav = \<lparr>mav_timestamp = None, mav_lat = None, mav_lon = None,
                     mav_alt = None, mav_rel = None\<rparr>\<rparr>"

subsection \<open>Helpers: output, clock, conversions\<close>

definition upd_state :: "(vehicle_state \<Rightarrow> vehicle_state) \<Rightarrow> world \<Rightarrow> world" where
  "upd_state f w = w\<lparr>obj := (obj w)\<lparr>state := f (state (obj w))\<rparr>\<rparr>"

definition upd_obj :: "(bridge \<Rightarrow> bridge) \<Rightarrow> world \<Rightarrow> world" where
  "upd_obj f w = w\<lparr>obj := f (obj w)\<rparr>"

definition emit :: "event \<Rightarrow> world \<Rightarrow> world" where
  "emit e w = w\<lparr>emitted := emitted w @ [e]\<rparr>"

text \<open>\<open>log(message, level)\<close>.\<close>

definition log_line :: "string \<Rightarrow> string \<Rightarrow> world \<Rightarrow> world" where
  "log_line message level w = emit (Log message level) w"

definition emit_state :: "world \<Rightarrow> world" where
  "emit_state w = emit (Telemetry (state (obj w))) w"

definition send :: "mav_cmd \<Rightarrow> world \<Rightarrow> world" where
  "send c w = w\<lparr>sent := sent w @ [c]\<rparr>"

text \<open>\<open>int(time.time() * 1000)\<close> and \<open>int(time.time())\<close>.\<close>

definition now_ms :: "env \<Rightarrow> world \<Rightarrow> int" where
  "now_ms E w = trunc (time_time E (clock w) * 1000)"

definition now_s :: "env \<Rightarrow> world \<Rightarrow> int" where
  "now_s E w = trunc (time_time E (clock w))"

text \<open>\<open>getattr(msg, name, default)\<close>.\<close>

definition attr :: "msg \<Rightarrow> string \<Rightarrow> pyval \<Rightarrow> pyval" where
  "attr m k d = (case map_of (attrs m) k of None \<Rightarrow> d | Some v \<Rightarrow> v)"

text \<open>\<open>float(v)\<close>.\<close>

fun py_float :: "env \<Rightarrow> pyval \<Rightarrow> error + pyfloat" where
  "py_float E (PBool b) = Inr (Fin (if b then 1 else 0))"
| "py_float E (PInt i) = Inr (Fin (of_int i))"
| "py_float E (PFloat f) = Inr f"
| "py_float E (PStr s) =
     (case parse_float E s of
        Some f \<Rightarrow> Inr f
      | None \<Rightarrow> Inl (Raised ValueError ''could not convert string to float''))"
| "py_float E v = Inl (Raised TypeError ''float() argument must be a string or a real number'')"

text \<open>\<open>str(v)\<close> and the \<open>{v}\<close> of an f-string.\<close>

definition py_str :: "env \<Rightarrow> pyval \<Rightarrow> string" where
  "py_str E v = (case v of PStr s \<Rightarrow> s | _ \<Rightarrow> str_of E v)"

definition str_int :: "env \<Rightarrow> int \<Rightarrow> string" where
  "str_int E i = str_of E (PInt i)"

text \<open>
  \<open>_safe_float\<close>: \<open>None\<close> for \<open>None\<close> and for whatever makes \<open>float\<close> raise TypeError or
  ValueError, the only classes \<open>py_float\<close> raises.
\<close>

definition safe_float :: "env \<Rightarrow> pyval \<Rightarrow> pyfloat option" where
  "safe_float E v =
     (if v = PNone then None
      else case py_float E v of Inr f \<Rightarrow> Some f | Inl e \<Rightarrow> None)"

text \<open>Sequencing of two steps, the second skipped when the first raised.\<close>

definition then_do ::
  "error option \<times> world \<Rightarrow> (world \<Rightarrow> error option \<times> world) \<Rightarrow> error option \<times> world" where
  "then_do r f = (case r of (Some e, w) \<Rightarrow> (Some e, w) | (None, w) \<Rightarrow> f w)"

subsection \<open>Status, mode switch and the takeoff sequence\<close>

definition update_status :: "env \<Rightarrow> string \<Rightarrow> real option \<Rightarrow> world \<Rightarrow> world" where
  "update_status E text hold_seconds w =
     (let hold = (case hold_seconds of None \<Rightarrow> status_hold_seconds E | Some h \<Rightarrow> h);
          w1 = upd_state (\<lambda>s. s\<lparr>status := text\<rparr>) w;
          w2 = upd_state (\<lambda>s. s\<lparr>statusTimestamp := Some (now_ms E w1)\<rparr>) w1;
          w3 = upd_obj (\<lambda>b. b\<lparr>status_hold_until := clock w2 + hold\<rparr>) w2
      in emit_state w3)"

definition set_mode :: "env \<Rightarrow> string \<Rightarrow> world \<Rightarrow> error option \<times> world" where
  "set_mode E mode_name w =
     (case master (obj w) of
        None \<Rightarrow> (Some (Raised RuntimeError ''Vehicle connection not ready''), w)
      | Some l \<Rightarrow>
          if mode_name = [] then (Some (Raised ValueError ''Mode name is required''), w)
          else
            let mapping = (case mode_mapping l of None \<Rightarrow> [] | Some mp \<Rightarrow> mp) in
            (case map_of mapping mode_name of
               None \<Rightarrow>
                 (Some (Raised ValueError (''Mode '' @ [CHR 0x27] @ mode_name @ [CHR 0x27]
                                            @ '' not supported'')), w)
             | Some mode_no \<Rightarrow>
                 let base_mode =
                       (case map_of MODE_EXTRA_FLAGS mode_name of
                          None \<Rightarrow> MAV_MODE_FLAG_CUSTOM_MODE_ENABLED
                        | Some extra_flag \<Rightarrow>
                            if extra_flag \<noteq> 0
                            then MAV_MODE_FLAG_CUSTOM_MODE_ENABLED OR extra_flag
                            else MAV_MODE_FLAG_CUSTOM_MODE_ENABLED);
                     w1 = send (CommandLong (target_system l) (target_component l)
                                  MAV_CMD_DO_SET_MODE 0
                                  [PInt base_mode, PInt mode_no,
                                   PInt 0, PInt 0, PInt 0, PInt 0, PInt 0]) w
                 in (None, send (SetModeSend (target_system l) base_mode mode_no) w1)))"

definition arm :: "bool \<Rightarrow> world \<Rightarrow> error option \<times> world" where
  "arm should_arm w =
     (case master (obj w) of
        None \<Rightarrow> (Some (Raised RuntimeError ''Vehicle connection not ready''), w)
      | Some l \<Rightarrow>
          (None, send (CommandLong (target_system l) (target_component l)
                         MAV_CMD_COMPONENT_ARM_DISARM 0
                         [PInt (if should_arm then 1 else 0),
                          PInt 0, PInt 0, PInt 0, PInt 0, PInt 0, PInt 0]) w))"

definition send_takeoff_command :: "pyfloat \<Rightarrow> world \<Rightarrow> error option \<times> world" where
  "send_takeoff_command altitude w =
     (case master (obj w) of
        None \<Rightarrow> (Some (Raised RuntimeError ''Vehicle connection not ready''), w)
      | Some l \<Rightarrow>
          (None, send (CommandLong (target_system l) (target_component l)
                         MAV_CMD_NAV_TAKEOFF 0
                         [PInt 0, PInt 0, PInt 0, PInt 0, PInt 0, PInt 0,
                          PFloat altitude]) w))"

text \<open>
  \<open>time.sleep(interval)\<close> with the default interval of 0.5 s, which no caller of
  \<open>wait_until\<close> overrides.
\<close>

definition sleep_interval :: "env \<Rightarrow> world \<Rightarrow> world" where
  "sleep_interval E w =
     w\<lparr>obj := others E (clock w) (obj w), clock := clock w + 1 / 2 + \<bar>lag E (clock w)\<bar>\<rparr>"

text \<open>The loop of \<open>wait_until\<close>, after \<open>end_time\<close> has been computed.\<close>

function wait_loop ::
  "env \<Rightarrow> (bridge \<Rightarrow> bool) \<Rightarrow> real \<Rightarrow> string \<Rightarrow> world \<Rightarrow> error option \<times> world" where
  "wait_loop E predicate end_time description w =
     (if clock w \<le> end_time then
        if predicate (obj w) then (None, w)
        else wait_loop E predicate end_time description (sleep_interval E w)
      else (Some (Raised TimeoutError (''Timed out waiting for '' @ description)), w))"
  by pat_completeness auto
termination
proof (relation "measure (\<lambda>(E, p, e, d, w). nat (\<lceil>(e - clock w) * 2\<rceil> + 1))")
  show "wf (measure (\<lambda>(E, p, e, d, w). nat (\<lceil>(e - clock w) * 2\<rceil> + 1)))"
    by simp
next
  fix E :: env and predicate :: "bridge \<Rightarrow> bool" and end_time :: real
    and description :: string and w :: world
  assume le: "clock w \<le> end_time"
  have c: "clock (sleep_interval E w) \<ge> clock w + 1 / 2"
    by (simp add: sleep_interval_def)
  have "(end_time - clock (sleep_interval E w)) * 2 \<le> (end_time - clock w) * 2 - 1"
    using c by simp
  then have "\<lceil>(end_time - clock (sleep_interval E w)) * 2\<rceil> \<le> \<lceil>(end_time - clock w) * 2 - 1\<rceil>"
    by (rule ceiling_mono)
  moreover have "\<lceil>(end_time - clock w) * 2 - 1\<rceil> = \<lceil>(end_time - clock w) * 2\<rceil> - 1"
    by simp
  moreover have "0 \<le> \<lceil>(end_time - clock w) * 2\<rceil>"
    using le by (simp add: ceiling_le_iff le_ceiling_iff)
  ultimately show
    "((E, predicate, end_time, description, sleep_interval E w),
      (E, predicate, end_time, description, w))
     \<in> measure (\<lambda>(E, p, e, d, w). nat (\<lceil>(e - clock w) * 2\<rceil> + 1))"
    by simp
qed

declare wait_loop.simps [simp del]

definition wait_until ::
  "env \<Rightarrow> (bridge \<Rightarrow> bool) \<Rightarrow> real \<Rightarrow> string \<Rightarrow> world \<Rightarrow> error option \<times> world" where
  "wait_until E predicate timeout description w =
     wait_loop E predicate (clock w + timeout) description w"

text \<open>The four predicates that \<open>takeoff_sequence\<close> waits for.\<close>

definition mode_is_guided :: "bridge \<Rightarrow> bool" where
  "mode_is_guided b = (upper (mode (state b)) = ''GUIDED'')"

definition vehicle_ready :: "bridge \<Rightarrow> bool" where
  "vehicle_ready b = ready (state b)"

definition vehicle_armed :: "bridge \<Rightarrow> bool" where
  "vehicle_armed b = armed (state b)"

definition altitude_reached :: "pyfloat \<Rightarrow> bridge \<Rightarrow> bool" where
  "altitude_reached altitude b =
     fge (case relative_alt (state b) of
            None \<Rightarrow> Fin 0
          | Some r \<Rightarrow> if r = Fin 0 then Fin 0 else r)
         (fmul altitude (95 / 100))"

definition takeoff_sequence :: "env \<Rightarrow> pyfloat \<Rightarrow> world \<Rightarrow> error option \<times> world" where
  "takeoff_sequence E altitude w =
     (case master (obj w) of
        None \<Rightarrow> (Some (Raised RuntimeError ''Vehicle connection not ready''), w)
      | Some l \<Rightarrow>
          let target_text = rstrip (CHR ''.'') (rstrip (CHR ''0'') (fmt_1f E altitude)) in
          then_do (set_mode E ''GUIDED''
                     (update_status E ''TAKEOFF: switching to GUIDED'' None w)) (\<lambda>w.
          then_do (wait_until E mode_is_guided 15 ''mode GUIDED'' w) (\<lambda>w.
          then_do (wait_until E vehicle_ready 15 ''vehicle ready''
                     (update_status E ''TAKEOFF: waiting for vehicle ready'' None w)) (\<lambda>w.
          then_do (arm True (update_status E ''TAKEOFF: arming motors'' None w)) (\<lambda>w.
          then_do (wait_until E vehicle_armed 20 ''vehicle arm'' w) (\<lambda>w.
          then_do (send_takeoff_command altitude
                     (update_status E (''TAKEOFF: climbing to '' @ target_text @ '' m'')
                        None w)) (\<lambda>w.
          then_do (wait_until E (altitude_reached altitude) 90 ''target altitude'' w) (\<lambda>w.
          (None, update_status E ''TAKEOFF: sequence complete'' (Some 6) w)))))))))"

subsection \<open>Pose samples and the CSV recorder\<close>

definition append_log_row :: "env \<Rightarrow> world \<Rightarrow> world" where
  "append_log_row E w =
     (let slam = latest_slam (obj w); mav = latest_mav (obj w) in
      case (slam_timestamp slam, slam_x slam, slam_y slam, slam_z slam) of
        (Some ts, Some x, Some y, Some z) \<Rightarrow>
          let log_time = now_ms E w;
              log_vs_slam = log_time - ts;
              w1 = upd_state (\<lambda>s. s\<lparr>last_log_delta_ms := Some log_vs_slam\<rparr>) w;
              w2 = (if debug_timing (obj w1) \<and> \<bar>log_vs_slam\<bar> > 250
                    then log_line (''LOG timestamp vs SLAM skew '' @ str_int E log_vs_slam
                              @ '' ms (slam='' @ str_int E ts @ '' log=''
                              @ str_int E log_time @ '')'') ''error'' w1
                    else w1);
              opt_int = (\<lambda>v. case v of None \<Rightarrow> PNone | Some i \<Rightarrow> PInt i);
              opt_float = (\<lambda>v. case v of None \<Rightarrow> PNone | Some f \<Rightarrow> PFloat f);
              row = [PInt log_time, PInt ts, PFloat x, PFloat y, PFloat z,
                     opt_int (mav_timestamp mav), opt_float (mav_lat mav),
                     opt_float (mav_lon mav), opt_float (mav_alt mav),
                     opt_float (mav_rel mav)]
          in upd_obj (\<lambda>b. b\<lparr>csv_rows := csv_rows b @ [row]\<rparr>) w2
      | _ \<Rightarrow> w)"

text \<open>
  Lines 312 to 318 of the source: the timestamp of a pose payload, from the value under
  the key \<open>timestamp\<close>.
\<close>

definition pose_timestamp :: "env \<Rightarrow> pyval \<Rightarrow> world \<Rightarrow> error + int" where
  "pose_timestamp E v w =
     (case safe_float E v of
        None \<Rightarrow> Inr (now_ms E w)
      | Some f \<Rightarrow>
          (case int_of_float f of
             Inl e \<Rightarrow> Inl e
           | Inr timestamp \<Rightarrow>
               Inr (if timestamp < 10 ^ 12 then timestamp * 1000 else timestamp)))"

definition store_slam_pose :: "env \<Rightarrow> pyval \<Rightarrow> world \<Rightarrow> error option \<times> world" where
  "store_slam_pose E payload w =
     (if \<not> truthy payload then (None, w)
      else case payload of
        PDict d \<Rightarrow>
          (case pose_timestamp E (dict_get d ''timestamp'') w of
             Inl e \<Rightarrow> (Some e, w)
           | Inr timestamp \<Rightarrow>
               let x = safe_float E (dict_get d ''x'');
                   y = safe_float E (dict_get d ''y'');
                   z = safe_float E (dict_get d ''z'');
                   qw = safe_float E (dict_get d ''qw'');
                   qx = safe_float E (dict_get d ''qx'');
                   qy = safe_float E (dict_get d ''qy'');
                   qz = safe_float E (dict_get d ''qz'')
               in if x = None \<or> y = None \<or> z = None then (None, w)
                  else
                    let host_now = now_ms E w;
                        delta = host_now - timestamp;
                        w1 = upd_state (\<lambda>s. s\<lparr>last_slam_timestamp := Some timestamp,
                                                last_slam_host_timestamp := Some host_now,
                                                last_slam_delta_ms := Some delta\<rparr>) w;
                        w2 = (if debug_timing (obj w1) \<and> \<bar>delta\<bar> > 250
                              then log_line (''SLAM timestamp skew '' @ str_int E delta
                                        @ '' ms (payload='' @ str_int E timestamp @ '')'')
                                     ''error'' w1
                              else w1);
                        w3 = upd_obj (\<lambda>b. b\<lparr>latest_slam :=
                                \<lparr>slam_timestamp = Some timestamp,
                                 slam_x = x, slam_y = y, slam_z = z,
                                 slam_qw = qw, slam_qx = qx, slam_qy = qy, slam_qz = qz\<rparr>\<rparr>) w2
                    in (None, if logging_active (obj w3) then append_log_row E w3 else w3))
      | _ \<Rightarrow> (Some (Raised AttributeError ''object has no attribute get''), w))"

definition start_csv_logging :: "env \<Rightarrow> world \<Rightarrow> (string \<times> pyval) list \<times> world" where
  "start_csv_logging E w =
     (let w1 = upd_obj (\<lambda>b. b\<lparr>csv_rows := []\<rparr>) w;
          w2 = upd_obj (\<lambda>b. b\<lparr>logging_active := True\<rparr>) w1
      in ([(''status'', PStr ''started'')], update_status E ''CSV: recording'' (Some 2) w2))"

text \<open>
  What \<open>csv.writer\<close> writes: \<open>None\<close> as the empty field, a string as it is, any other
  value through \<open>str\<close>; fields joined by commas and each row ended by CR LF. No field of
  this program holds a comma, a quote or a line break, so nothing is quoted.
\<close>

definition csv_header :: "string list" where
  "csv_header =
     [''timestamp_log'', ''timestamp_slam'', ''slam_x'', ''slam_y'', ''slam_z'',
      ''timestamp_mavlink'', ''gps_lat'', ''gps_lon'', ''gps_alt'', ''gps_alt_rel'']"

definition csv_field :: "env \<Rightarrow> pyval \<Rightarrow> string" where
  "csv_field E v = (case v of PNone \<Rightarrow> [] | _ \<Rightarrow> py_str E v)"

fun join_comma :: "string list \<Rightarrow> string" where
  "join_comma [] = []"
| "join_comma [f] = f"
| "join_comma (f # fs) = f @ '','' @ join_comma fs"

definition writerow :: "env \<Rightarrow> pyval list \<Rightarrow> string" where
  "writerow E row = join_comma (map (csv_field E) row) @ [CHR 0x0D, CHR 0x0A]"

definition csv_table :: "env \<Rightarrow> pyval list list \<Rightarrow> string" where
  "csv_table E rows = writerow E (map PStr csv_header) @ concat (map (writerow E) rows)"

definition stop_csv_logging ::
  "env \<Rightarrow> world \<Rightarrow> (error + (string \<times> pyval) list) \<times> world" where
  "stop_csv_logging E w =
     (if \<not> logging_active (obj w) then (Inl (Raised RuntimeError ''CSV belum dimulai''), w)
      else
        let w1 = upd_obj (\<lambda>b. b\<lparr>logging_active := False\<rparr>) w;
            csv_text = csv_table E (csv_rows (obj w1));
            w2 = upd_obj (\<lambda>b. b\<lparr>csv_rows := []\<rparr>) w1;
            file_name = ''slam-log-'' @ str_int E (now_s E w2) @ ''.csv'';
            encoded = b64encode E csv_text
        in (Inr [(''csv'', PStr encoded), (''file_name'', PStr file_name)], w2))"

subsection \<open>Command dispatch\<close>

text \<open>
  \<open>handle_command\<close> on the payload dict \<open>d\<close>: the exception it raises, or the value it
  returns (\<open>None\<close>, or the dict of a recorder command).
\<close>

definition handle_command ::
  "env \<Rightarrow> (string \<times> pyval) list \<Rightarrow> world
     \<Rightarrow> (error + (string \<times> pyval) list option) \<times> world" where
  "handle_command E d w =
     (let command_type = dict_get d ''type'';
          no_value = (\<lambda>r. case r of (Some e, w') \<Rightarrow> (Inl e, w') | (None, w') \<Rightarrow> (Inr None, w'))
      in
      if command_type = PStr ''set_mode'' then
        let mode_name = upper (strip (py_str E
              (if truthy (dict_get d ''mode'') then dict_get d ''mode'' else PStr [])))
        in no_value (set_mode E mode_name w)
      else if command_type = PStr ''takeoff'' then
        let altitude = dict_get d ''altitude'';
            altitude_value = (case py_float E altitude of Inr f \<Rightarrow> f | Inl e \<Rightarrow> Fin 30);
            altitude_value = (if fgt altitude_value (Fin 0) then altitude_value else Fin 30)
        in no_value (takeoff_sequence E altitude_value w)
      else if command_type = PStr ''slam_pose'' then
        no_value (store_slam_pose E (dict_get d ''data'') w)
      else if command_type = PStr ''csv_start'' then
        (case start_csv_logging E w of (r, w') \<Rightarrow> (Inr (Some r), w'))
      else if command_type = PStr ''csv_stop'' then
        (case stop_csv_logging E w of
           (Inl e, w') \<Rightarrow> (Inl e, w')
         | (Inr r, w') \<Rightarrow> (Inr (Some r), w'))
      else (Inr None, w))"

text \<open>The dict literal of \<open>execute_command\<close> that maps a command type to its result type.\<close>

definition result_types :: "(string \<times> string) list" where
  "result_types =
     [(''set_mode'', ''mode_result''),
      (''takeoff'', ''takeoff_result''),
      (''csv_start'', ''csv_start_result''),
      (''csv_stop'', ''csv_stop_result'')]"

text \<open>
  \<open>execute_command\<close>. The two lookups before the \<open>try\<close> can raise: \<open>payload.get\<close> on
  a payload that is no dict, and the lookup of an unhashable command type (a list or a
  dict) in the dict literal. These exceptions are not caught; they are the \<open>Some\<close> of the
  outcome. Every value of the dict literal is a non-empty string, so \<open>if result_type\<close>
  tests that the lookup found one.
\<close>

definition execute_command :: "env \<Rightarrow> pyval \<Rightarrow> world \<Rightarrow> error option \<times> world" where
  "execute_command E payload w =
     (case payload of
        PDict d \<Rightarrow>
          let command_type = dict_get d ''type'';
              request_id = dict_get d ''request_id''
          in (case (case command_type of
                      PStr s \<Rightarrow> Inr (map_of result_types s)
                    | PList xs \<Rightarrow> Inl (Raised TypeError ''unhashable type'')
                    | PDict kvs \<Rightarrow> Inl (Raised TypeError ''unhashable type'')
                    | _ \<Rightarrow> Inr None) of
                Inl e \<Rightarrow> (Some e, w)
              | Inr result_type \<Rightarrow>
                  (case handle_command E d w of
                     (Inr result_payload, w1) \<Rightarrow>
                       (None,
                        case result_type of
                          None \<Rightarrow> w1
                        | Some rt \<Rightarrow>
                            emit (CmdResult rt True request_id
                                    (case result_payload of None \<Rightarrow> [] | Some r \<Rightarrow> r)) w1)
                   | (Inl exc, w1) \<Rightarrow>
                       let w2 = (case result_type of
                                   None \<Rightarrow> w1
                                 | Some rt \<Rightarrow>
                                     emit (CmdResult rt False request_id
                                             [(''error'', PStr (exc_text exc))]) w1)
                       in (None, log_line (''Command '' @ py_str E command_type @ '' failed: ''
                                      @ exc_text exc) ''error'' w2)))
      | _ \<Rightarrow> (Some (Raised AttributeError ''object has no attribute get''), w))"

subsection \<open>Incoming vehicle messages\<close>

text \<open>The branch of \<open>handle_message\<close> for HEARTBEAT.\<close>

definition handle_heartbeat :: "env \<Rightarrow> msg \<Rightarrow> world \<Rightarrow> error option \<times> world" where
  "handle_heartbeat E m w =
     (let base_mode = attr m ''base_mode'' (PInt 0);
          sys_status = attr m ''system_status'' PNone
      in case bit_and base_mode MAV_MODE_FLAG_SAFETY_ARMED of
           Inl e \<Rightarrow> (Some e, w)
         | Inr bits \<Rightarrow>
             let w1 = upd_state (\<lambda>s. s\<lparr>armed := (bits \<noteq> 0)\<rparr>) w;
                 w2 = upd_state (\<lambda>s. s\<lparr>ready := (eq_int sys_status MAV_STATE_STANDBY
                                                  \<or> eq_int sys_status MAV_STATE_ACTIVE)\<rparr>) w1
             in
             then_do
               (if sys_status \<noteq> PNone then
                  (case sys_status of
                     PList xs \<Rightarrow> (Some (Raised TypeError ''unhashable type''), w2)
                   | PDict kvs \<Rightarrow> (Some (Raised TypeError ''unhashable type''), w2)
                   | _ \<Rightarrow>
                       let name = (case mav_state_name E sys_status of
                                     Some n \<Rightarrow> n
                                   | None \<Rightarrow> py_str E sys_status);
                           w3 = upd_state (\<lambda>s. s\<lparr>system_status := name\<rparr>) w2
                       in if clock w3 \<ge> status_hold_until (obj w3) then
                            let w4 = upd_state (\<lambda>s. s\<lparr>status := system_status s\<rparr>) w3
                            in (None, upd_state
                                        (\<lambda>s. s\<lparr>statusTimestamp := Some (now_ms E w4)\<rparr>) w4)
                          else (None, w3))
                else (None, w2))
               (\<lambda>w. let mode_str = mode_string_v10 E m;
                        w5 = upd_state
                               (\<lambda>s. s\<lparr>mode := (if mode_str = [] then ''UNKNOWN'' else mode_str),
                                       mode_id := attr m ''custom_mode'' PNone,
                                       system_id := Some (src_system m),
                                       component_id := Some (src_component m)\<rparr>) w
                    in (None, emit_state w5)))"

text \<open>\<open>raw / d if raw is not None else None\<close>.\<close>

definition si_field :: "pyval \<Rightarrow> real \<Rightarrow> error + pyfloat option" where
  "si_field raw d =
     (if raw \<noteq> PNone then (case truediv raw d of Inl e \<Rightarrow> Inl e | Inr f \<Rightarrow> Inr (Some f))
      else Inr None)"

text \<open>
  \<open>int(vehicle_boot)\<close> under \<open>isinstance(vehicle_boot, (int, float))\<close>, which holds of a
  bool too; \<open>None\<close> when the test fails.
\<close>

fun boot_ms_int :: "pyval \<Rightarrow> error + int option" where
  "boot_ms_int (PBool b) = Inr (Some (if b then 1 else 0))"
| "boot_ms_int (PInt i) = Inr (Some i)"
| "boot_ms_int (PFloat f) = (case int_of_float f of Inl e \<Rightarrow> Inl e | Inr i \<Rightarrow> Inr (Some i))"
| "boot_ms_int v = Inr None"

text \<open>Lines 462 to 468: the offset of the vehicle's boot clock and the last value seen.\<close>

definition boot_clock_step :: "int \<Rightarrow> int \<Rightarrow> bridge \<Rightarrow> bridge" where
  "boot_clock_step host_ms vehicle_boot b =
     (let recompute =
            (case vehicle_boot_offset b of
               None \<Rightarrow> True
             | Some off \<Rightarrow>
                 (case last_vehicle_boot_ms b of
                    None \<Rightarrow> True
                  | Some last_boot \<Rightarrow> vehicle_boot < last_boot));
          b1 = (if recompute then b\<lparr>vehicle_boot_offset := Some (host_ms - vehicle_boot)\<rparr>
                else b)
      in b1\<lparr>last_vehicle_boot_ms := Some vehicle_boot\<rparr>)"

text \<open>
  The branch of \<open>handle_message\<close> for GLOBAL\_POSITION\_INT, in two parts: lines 449 to
  456 store the position, lines 457 to 491 reconcile the boot clock of the vehicle with
  the clock of the host and publish the sample.
\<close>

definition store_position :: "msg \<Rightarrow> world \<Rightarrow> error option \<times> world" where
  "store_position m w =
     (case si_field (attr m ''lat'' PNone) (10 ^ 7) of
        Inl e \<Rightarrow> (Some e, w)
      | Inr v1 \<Rightarrow>
     let w1 = upd_state (\<lambda>s. s\<lparr>lat := v1\<rparr>) w in
     case si_field (attr m ''lon'' PNone) (10 ^ 7) of
        Inl e \<Rightarrow> (Some e, w1)
      | Inr v2 \<Rightarrow>
     let w2 = upd_state (\<lambda>s. s\<lparr>lon := v2\<rparr>) w1 in
     case si_field (attr m ''alt'' PNone) 1000 of
        Inl e \<Rightarrow> (Some e, w2)
      | Inr v3 \<Rightarrow>
     let w3 = upd_state (\<lambda>s. s\<lparr>alt := v3\<rparr>) w2 in
     case si_field (attr m ''relative_alt'' PNone) 1000 of
        Inl e \<Rightarrow> (Some e, w3)
      | Inr v4 \<Rightarrow> (None, upd_state (\<lambda>s. s\<lparr>relative_alt := v4\<rparr>) w3))"

definition track_boot_clock :: "env \<Rightarrow> msg \<Rightarrow> world \<Rightarrow> error option \<times> world" where
  "track_boot_clock E m w4 =
     (let host_ms = now_ms E w4;
          raw_boot = attr m ''time_boot_ms'' PNone
      in
      case boot_ms_int raw_boot of
        Inl e \<Rightarrow> (Some e, w4)
      | Inr vehicle_boot \<Rightarrow>
     then_do
       (case vehicle_boot of
          None \<Rightarrow> (None, w4)
        | Some vb \<Rightarrow>
            let w5 = upd_obj (boot_clock_step host_ms vb) w4 in
            (case vehicle_boot_offset (obj w5) of
               None \<Rightarrow> (Some (Raised TypeError ''unsupported operand type(s) for +''), w5)
             | Some off \<Rightarrow>
                 let estimated_host = off + vb;
                     skew_ms = host_ms - estimated_host
                 in (None,
                     if debug_timing (obj w5) \<and> \<bar>skew_ms\<bar> > 250
                     then log_line (''GPS timestamp skew '' @ str_int E skew_ms
                                    @ '' ms (vehicle_boot='' @ str_int E vb
                                    @ '' offset='' @ str_int E off @ '')'') ''error'' w5
                     else w5)))
       (\<lambda>w5.
          let skew_ms = (case (vehicle_boot, vehicle_boot_offset (obj w5)) of
                           (Some vb, Some off) \<Rightarrow> Some (host_ms - (off + vb))
                         | _ \<Rightarrow> None);
              w6 = upd_state (\<lambda>s. s\<lparr>last_gps_host_timestamp := Some host_ms\<rparr>) w5
          in
          case (case vehicle_boot of
                  Some vb \<Rightarrow>
                    Inr (Some (vb + (case vehicle_boot_offset (obj w6) of
                                       None \<Rightarrow> 0
                                     | Some off \<Rightarrow> off)))
                | None \<Rightarrow>
                    if raw_boot \<noteq> PNone
                    then Inl (Raised TypeError ''unsupported operand type(s) for +'')
                    else Inr None) of
            Inl e \<Rightarrow> (Some e, w6)
          | Inr vehicle_ts \<Rightarrow>
              let w7 = upd_state (\<lambda>s. s\<lparr>last_gps_vehicle_timestamp := vehicle_ts\<rparr>) w6;
                  w8 = upd_state (\<lambda>s. s\<lparr>last_gps_vehicle_skew_ms := skew_ms\<rparr>) w7;
                  w9 = upd_obj (\<lambda>b. b\<lparr>latest_mav :=
                          \<lparr>mav_timestamp = Some host_ms,
                           mav_lat = lat (state b), mav_lon = lon (state b),
                           mav_alt = alt (state b), mav_rel = relative_alt (state b)\<rparr>\<rparr>) w8
              in (None, emit_state w9)))"

definition handle_global_position ::
  "env \<Rightarrow> msg \<Rightarrow> world \<Rightarrow> error option \<times> world" where
  "handle_global_position E m w = then_do (store_position m w) (track_boot_clock E m)"

text \<open>The branches for GPS\_RAW\_INT and VFR\_HUD, which raise nothing.\<close>

definition handle_gps_raw :: "env \<Rightarrow> msg \<Rightarrow> world \<Rightarrow> world" where
  "handle_gps_raw E m w =
     (let fix_type = attr m ''fix_type'' PNone;
          w1 = upd_state (\<lambda>s. s\<lparr>gps_fix_type := fix_type\<rparr>) w;
          w2 = upd_state (\<lambda>s. s\<lparr>satellites_visible :=
                                   attr m ''satellites_visible'' PNone\<rparr>) w1;
          eph = attr m ''eph'' PNone;
          new_hdop = (if eph \<noteq> PNone \<and> \<not> eq_int eph 65535
                      then (case py_float E eph of
                              Inr f \<Rightarrow> Some (fdiv f 100)
                            | Inl e \<Rightarrow> None)
                      else None);
          w3 = upd_state (\<lambda>s. s\<lparr>hdop := new_hdop\<rparr>) w2
      in emit_state w3)"

definition handle_vfr_hud :: "env \<Rightarrow> msg \<Rightarrow> world \<Rightarrow> world" where
  "handle_vfr_hud E m w =
     (let w1 = upd_state (\<lambda>s. s\<lparr>heading := safe_float E (attr m ''heading'' PNone)\<rparr>) w;
          w2 = upd_state (\<lambda>s. s\<lparr>baro_alt := safe_float E (attr m ''alt'' PNone)\<rparr>) w1;
          w3 = upd_state (\<lambda>s. s\<lparr>climb := safe_float E (attr m ''climb'' PNone)\<rparr>) w2
      in emit_state w3)"

definition handle_message :: "env \<Rightarrow> msg \<Rightarrow> world \<Rightarrow> error option \<times> world" where
  "handle_message E m w =
     (if mtype m = ''HEARTBEAT'' then handle_heartbeat E m w
      else if mtype m = ''GLOBAL_POSITION_INT'' then handle_global_position E m w
      else if mtype m = ''GPS_RAW_INT'' then (None, handle_gps_raw E m w)
      else if mtype m = ''VFR_HUD'' then (None, handle_vfr_hud E m w)
      else (None, w))"

text \<open>Whether an emitted object is a command result, and what a sent command is.\<close>

fun is_result :: "event \<Rightarrow> bool" where
  "is_result (CmdResult t ok r x) = True"
| "is_result e = False"

fun is_arm_command :: "mav_cmd \<Rightarrow> bool" where
  "is_arm_command (CommandLong ts tc c conf ps) = (c = MAV_CMD_COMPONENT_ARM_DISARM)"
| "is_arm_command c = False"

fun is_takeoff_command :: "mav_cmd \<Rightarrow> bool" where
  "is_takeoff_command (CommandLong ts tc c conf ps) = (c = MAV_CMD_NAV_TAKEOFF)"
| "is_takeoff_command c = False"

text \<open>
  \<open>no_result_since w w'\<close>: the output of \<open>w'\<close> is the output of \<open>w\<close> followed by objects
  none of which is a command result.
\<close>

definition no_result_since :: "world \<Rightarrow> world \<Rightarrow> bool" where
  "no_result_since w w' =
     (take (length (emitted w)) (emitted w') = emitted w
      \<and> list_all (\<lambda>e. \<not> is_result e) (drop (length (emitted w)) (emitted w')))"

subsection \<open>A sample environment, link and messages\<close>

text \<open>
  Concrete inputs on which the theorems below are instantiated: a host whose wall clock
  reads 1700000000 s at the monotonic instant 0, sleeps that never overrun, and no other
  thread touching the object. Its \<open>str\<close> prints the integers and floats that the samples
  print and a question mark for any other value.
\<close>

definition sample_env :: env where
  "sample_env =
     \<lparr>parse_float = (\<lambda>s. if s = ''1.5'' then Some (Fin (3 / 2)) else None),
      str_of = (\<lambda>v. if v = PInt 1700000100 then ''1700000100''
                    else if v = PInt 1700000000000 then ''1700000000000''
                    else if v = PInt 1700000100000 then ''1700000100000''
                    else if v = PFloat (Fin 1) then ''1.0''
                    else if v = PFloat (Fin 2) then ''2.0''
                    else if v = PFloat (Fin 3) then ''3.0''
                    else ''?''),
      fmt_1f = (\<lambda>f. ''30.0''),
      b64encode = (\<lambda>s. s),
      mode_string_v10 = (\<lambda>m. ''STABILIZE''),
      mav_state_name = (\<lambda>v. if eq_int v 3 then Some ''MAV_STATE_STANDBY''
                            else if eq_int v 4 then Some ''MAV_STATE_ACTIVE''
                            else None),
      status_hold_seconds = 4,
      time_time = (\<lambda>t. 1700000000 + t),
      lag = (\<lambda>t. 0),
      others = (\<lambda>t b. b)\<rparr>"

definition sample_link :: link where
  "sample_link =
     \<lparr>target_system = 1, target_component = 1,
      mode_mapping = Some [(''STABILIZE'', 0), (''GUIDED'', 4), (''RTL'', 6)]\<rparr>"

text \<open>The world of a fresh object at the monotonic instant \<open>t\<close>, with and without a link.\<close>

definition fresh_world :: "real \<Rightarrow> world" where
  "fresh_world t = \<lparr>obj = init_bridge False, clock = t, emitted = [], sent = []\<rparr>"

definition linked_world :: "real \<Rightarrow> world" where
  "linked_world t =
     \<lparr>obj = (init_bridge False)\<lparr>master := Some sample_link\<rparr>,
      clock = t, emitted = [], sent = []\<rparr>"

definition sample_heartbeat :: msg where
  "sample_heartbeat =
     \<lparr>mtype = ''HEARTBEAT'',
      attrs = [(''base_mode'', PInt 81), (''system_status'', PInt 4),
               (''custom_mode'', PInt 0)],
      src_system = 1, src_component = 1\<rparr>"

definition sample_position :: "int \<Rightarrow> msg" where
  "sample_position boot_ms =
     \<lparr>mtype = ''GLOBAL_POSITION_INT'',
      attrs = [(''time_boot_ms'', PInt boot_ms), (''lat'', PInt (- 74000000)),
               (''lon'', PInt 1100000000), (''alt'', PInt 120000),
               (''relative_alt'', PInt 1500)],
      src_system = 1, src_component = 1\<rparr>"

definition sample_vfr_hud :: msg where
  "sample_vfr_hud =
     \<lparr>mtype = ''VFR_HUD'',
      attrs = [(''alt'', PFloat (Fin 12)), (''climb'', PStr ''up'')],
      src_system = 1, src_component = 1\<rparr>"

text \<open>A world in which a recording session is active and holds one row.\<close>

definition recording_world :: "real \<Rightarrow> world" where
  "recording_world t =
     \<lparr>obj = (init_bridge False)
              \<lparr>logging_active := True,
               csv_rows := [[PInt 1700000000000, PInt 1700000000000,
                             PFloat (Fin 1), PFloat (Fin 2), PFloat (Fin 3),
                             PNone, PNone, PNone, PNone, PNone]]\<rparr>,
      clock = t, emitted = [], sent = []\<rparr>"

text \<open>A pose payload with the given timestamp and the given value under \<open>y\<close>.\<close>

definition sample_pose :: "pyval \<Rightarrow> pyval \<Rightarrow> (string \<times> pyval) list" where
  "sample_pose ts y =
     [(''timestamp'', ts), (''x'', PFloat (Fin 1)), (''y'', y), (''z'', PFloat (Fin 3))]"

text \<open>A world in which the vehicle has reported a heading, a climb rate and a position.\<close>

definition cruise_world :: "real \<Rightarrow> world" where
  "cruise_world t =
     \<lparr>obj = (init_bridge False)
              \<lparr>state := init_state\<lparr>lat := Some (Fin (- 7.4)), heading := Some (Fin 90),
                                    climb := Some (Fin 1)\<rparr>\<rparr>,
      clock = t, emitted = [], sent = []\<rparr>"

section \<open>Properties of the bridge\<close>

lemmas world_defs = upd_state_def upd_obj_def emit_state_def emit_def log_line_def send_def

lemmas sample_defs = sample_env_def sample_link_def fresh_world_def linked_world_def
  recording_world_def cruise_world_def init_bridge_def init_state_def

subsection \<open>The held status\<close>

text \<open>
  Claim C2. A HEARTBEAT that carries a lifecycle status and is applied without an
  exception overwrites the displayed status with the name of the lifecycle status, and
  its timestamp with the host time, exactly when the monotonic clock has reached the
  hold expiry; before that instant both are left as they were. \<open>update_status\<close> always
  overwrites the status and its timestamp and sets the hold expiry to the current instant
  plus the hold duration, the configured default when none is given.
\<close>

theorem status_hold_rule:
  assumes "mtype m = ''HEARTBEAT''"
    and "attr m ''system_status'' PNone \<noteq> PNone"
    and "fst (handle_message E m w) = None"
  shows "(status_hold_until (obj w) \<le> clock w \<longrightarrow>
            status (state (obj (snd (handle_message E m w))))
              = system_status (state (obj (snd (handle_message E m w))))
            \<and> statusTimestamp (state (obj (snd (handle_message E m w)))) = Some (now_ms E w))
       \<and> (clock w < status_hold_until (obj w) \<longrightarrow>
            status (state (obj (snd (handle_message E m w)))) = status (state (obj w))
            \<and> statusTimestamp (state (obj (snd (handle_message E m w))))
                = statusTimestamp (state (obj w)))
       \<and> system_status (state (obj (snd (handle_message E m w))))
            = (case mav_state_name E (attr m ''system_status'' PNone) of
                 Some n \<Rightarrow> n
               | None \<Rightarrow> py_str E (attr m ''system_status'' PNone))
       \<and> status (state (obj (update_status E text h w))) = text
       \<and> statusTimestamp (state (obj (update_status E text h w))) = Some (now_ms E w)
       \<and> status_hold_until (obj (update_status E text h w))
            = clock w + (case h of None \<Rightarrow> status_hold_seconds E | Some x \<Rightarrow> x)"
  using assms
  by (auto simp: handle_message_def handle_heartbeat_def Let_def then_do_def world_defs
      update_status_def now_ms_def split: sum.splits pyval.splits option.splits if_splits)

text \<open>
  The scenario of the specification: the status \<open>X\<close> is held for 4 s from the instant
  100; a heartbeat one second later leaves it, a heartbeat five seconds later replaces it.
\<close>

theorem status_hold_rule_witness:
  "status (state (obj (snd (handle_message sample_env sample_heartbeat
       ((update_status sample_env ''X'' (Some 4) (fresh_world 100))\<lparr>clock := 101\<rparr>))))) = ''X''
   \<and> status (state (obj (snd (handle_message sample_env sample_heartbeat
       ((update_status sample_env ''X'' (Some 4) (fresh_world 100))\<lparr>clock := 105\<rparr>)))))
       = ''MAV_STATE_ACTIVE''"
proof -
  let ?w = "update_status sample_env ''X'' (Some 4) (fresh_world 100)"
  have a: "mtype sample_heartbeat = ''HEARTBEAT''"
    by (simp add: sample_heartbeat_def)
  have b: "attr sample_heartbeat ''system_status'' PNone \<noteq> PNone"
    by (simp add: sample_heartbeat_def attr_def)
  have c: "fst (handle_message sample_env sample_heartbeat (?w\<lparr>clock := t\<rparr>)) = None" for t
    by (simp add: handle_message_def handle_heartbeat_def Let_def then_do_def world_defs
        update_status_def now_ms_def sample_defs sample_heartbeat_def attr_def
        MAV_MODE_FLAG_SAFETY_ARMED_def)
  have h: "status_hold_until (obj ?w) = 104" "status (state (obj ?w)) = ''X''"
    by (simp_all add: update_status_def world_defs Let_def sample_defs)
  have n: "mav_state_name sample_env (attr sample_heartbeat ''system_status'' PNone)
             = Some ''MAV_STATE_ACTIVE''"
    by (simp add: sample_defs sample_heartbeat_def attr_def eq_int_def)
  show ?thesis
    using status_hold_rule [OF a b c, of 101] status_hold_rule [OF a b c, of 105] h n
    by simp
qed

subsection \<open>Position messages: units and the boot clock\<close>

lemma store_position_frame:
  "clock (snd (store_position m w)) = clock w"
  "vehicle_boot_offset (obj (snd (store_position m w))) = vehicle_boot_offset (obj w)"
  "last_vehicle_boot_ms (obj (snd (store_position m w))) = last_vehicle_boot_ms (obj w)"
  by (simp_all add: store_position_def Let_def world_defs split: sum.split)

lemma track_boot_clock_position:
  "lat (state (obj (snd (track_boot_clock E m w)))) = lat (state (obj w))"
  "lon (state (obj (snd (track_boot_clock E m w)))) = lon (state (obj w))"
  "alt (state (obj (snd (track_boot_clock E m w)))) = alt (state (obj w))"
  "relative_alt (state (obj (snd (track_boot_clock E m w)))) = relative_alt (state (obj w))"
  by (simp_all add: track_boot_clock_def Let_def then_do_def world_defs boot_clock_step_def
      split: sum.split option.split)

lemma track_boot_clock_offset:
  assumes "boot_ms_int (attr m ''time_boot_ms'' PNone) = Inr (Some vb)"
  shows "vehicle_boot_offset (obj (snd (track_boot_clock E m w)))
           = Some (case (vehicle_boot_offset (obj w), last_vehicle_boot_ms (obj w)) of
                     (Some off, Some prev) \<Rightarrow> if vb < prev then now_ms E w - vb else off
                   | _ \<Rightarrow> now_ms E w - vb)"
    and "last_vehicle_boot_ms (obj (snd (track_boot_clock E m w))) = Some vb"
    and "last_gps_vehicle_skew_ms (state (obj (snd (track_boot_clock E m w))))
           = Some (now_ms E w
                   - ((case (vehicle_boot_offset (obj w), last_vehicle_boot_ms (obj w)) of
                         (Some off, Some prev) \<Rightarrow> if vb < prev then now_ms E w - vb else off
                       | _ \<Rightarrow> now_ms E w - vb) + vb))"
  using assms
  by (simp_all add: track_boot_clock_def Let_def then_do_def world_defs boot_clock_step_def
      split: option.split)

text \<open>
  Claim C3. When a GLOBAL\_POSITION\_INT message with a numeric boot-clock value \<open>vb\<close> is
  applied without an exception, the offset becomes host time minus \<open>vb\<close> exactly when no
  offset or no previous value is stored (the first sample) or \<open>vb\<close> is strictly below the
  previous value; otherwise the stored offset is kept. The previous value becomes \<open>vb\<close>,
  and the stored skew is host time minus (offset + \<open>vb\<close>), with the offset just decided.
\<close>

theorem boot_clock_offset_rule:
  assumes "mtype m = ''GLOBAL_POSITION_INT''"
    and "boot_ms_int (attr m ''time_boot_ms'' PNone) = Inr (Some vb)"
    and "fst (handle_message E m w) = None"
  shows "vehicle_boot_offset (obj (snd (handle_message E m w)))
           = Some (case (vehicle_boot_offset (obj w), last_vehicle_boot_ms (obj w)) of
                     (Some off, Some prev) \<Rightarrow> if vb < prev then now_ms E w - vb else off
                   | _ \<Rightarrow> now_ms E w - vb)
       \<and> last_vehicle_boot_ms (obj (snd (handle_message E m w))) = Some vb
       \<and> last_gps_vehicle_skew_ms (state (obj (snd (handle_message E m w))))
           = Some (now_ms E w
                   - ((case (vehicle_boot_offset (obj w), last_vehicle_boot_ms (obj w)) of
                         (Some off, Some prev) \<Rightarrow> if vb < prev then now_ms E w - vb else off
                       | _ \<Rightarrow> now_ms E w - vb) + vb))"
proof -
  obtain r w4 where sp: "store_position m w = (r, w4)"
    by (cases "store_position m w")
  have hm: "handle_message E m w = then_do (r, w4) (track_boot_clock E m)"
    using assms(1) sp by (simp add: handle_message_def handle_global_position_def)
  have r: "r = None"
    using assms(3) hm by (cases r) (simp_all add: then_do_def)
  have fr: "clock w4 = clock w" "vehicle_boot_offset (obj w4) = vehicle_boot_offset (obj w)"
    "last_vehicle_boot_ms (obj w4) = last_vehicle_boot_ms (obj w)"
    using store_position_frame [of m w] sp by simp_all
  have nm: "now_ms E w4 = now_ms E w"
    using fr(1) by (simp add: now_ms_def)
  have "handle_message E m w = track_boot_clock E m w4"
    using hm r by (simp add: then_do_def)
  then show ?thesis
    using track_boot_clock_offset [OF assms(2), of E w4] unfolding fr nm by simp
qed

text \<open>
  A first sample at boot time 5000 fixes the offset; a later sample at 6000 keeps it and
  shows a skew of 1000 ms; a sample at 300, below the previous 6000, recomputes it.
\<close>

theorem boot_clock_offset_rule_witness:
  "vehicle_boot_offset (obj (snd (handle_message sample_env (sample_position 5000)
       (fresh_world 100)))) = Some 1700000095000
   \<and> vehicle_boot_offset (obj (snd (handle_message sample_env (sample_position 6000)
       ((fresh_world 102)\<lparr>obj := (init_bridge False)\<lparr>vehicle_boot_offset := Some 1700000095000,
                last_vehicle_boot_ms := Some 5000\<rparr>\<rparr>)))) = Some 1700000095000
   \<and> last_gps_vehicle_skew_ms (state (obj (snd (handle_message sample_env (sample_position 6000)
       ((fresh_world 102)\<lparr>obj := (init_bridge False)\<lparr>vehicle_boot_offset := Some 1700000095000,
                last_vehicle_boot_ms := Some 5000\<rparr>\<rparr>))))) = Some 1000
   \<and> vehicle_boot_offset (obj (snd (handle_message sample_env (sample_position 300)
       ((fresh_world 103)\<lparr>obj := (init_bridge False)\<lparr>vehicle_boot_offset := Some 1700000095000,
                last_vehicle_boot_ms := Some 6000\<rparr>\<rparr>)))) = Some 1700000102700"
proof -
  have a: "mtype (sample_position b) = ''GLOBAL_POSITION_INT''" for b
    by (simp add: sample_position_def)
  have b: "boot_ms_int (attr (sample_position b) ''time_boot_ms'' PNone) = Inr (Some b)" for b
    by (simp add: sample_position_def attr_def)
  have sp: "fst (store_position (sample_position b) w) = None" for b w
    by (simp add: store_position_def sample_position_def attr_def si_field_def truediv_def
        Let_def)
  have tb: "fst (track_boot_clock sample_env (sample_position b) w) = None" for b w
    by (simp add: track_boot_clock_def sample_position_def attr_def Let_def then_do_def
        world_defs boot_clock_step_def split: option.split)
  have c: "fst (handle_message sample_env (sample_position b) w) = None" for b w
    using sp [of b w] tb [of b]
    by (cases "store_position (sample_position b) w")
       (simp add: handle_message_def handle_global_position_def then_do_def a)
  show ?thesis
    using boot_clock_offset_rule [OF a b c, of 5000 "fresh_world 100"]
      boot_clock_offset_rule [OF a b c, of 6000
        "(fresh_world 102)\<lparr>obj := (init_bridge False)\<lparr>vehicle_boot_offset := Some 1700000095000,
                last_vehicle_boot_ms := Some 5000\<rparr>\<rparr>"]
      boot_clock_offset_rule [OF a b c, of 300
        "(fresh_world 103)\<lparr>obj := (init_bridge False)\<lparr>vehicle_boot_offset := Some 1700000095000,
                last_vehicle_boot_ms := Some 6000\<rparr>\<rparr>"]
    by (simp add: fresh_world_def init_bridge_def now_ms_def sample_env_def trunc_def)
qed

text \<open>
  Claim C4. For a GLOBAL\_POSITION\_INT message whose four raw position fields are
  numbers, the state holds the converted values after the call: latitude and longitude
  are the raw values divided by \<open>10\<^sup>7\<close>, the two altitudes the raw values divided by 1000.
\<close>

theorem position_si_units:
  assumes "mtype m = ''GLOBAL_POSITION_INT''"
    and "num_val (attr m ''lat'' PNone) = Some raw_lat"
    and "num_val (attr m ''lon'' PNone) = Some raw_lon"
    and "num_val (attr m ''alt'' PNone) = Some raw_alt"
    and "num_val (attr m ''relative_alt'' PNone) = Some raw_rel"
  shows "lat (state (obj (snd (handle_message E m w)))) = Some (fdiv raw_lat (10 ^ 7))
       \<and> lon (state (obj (snd (handle_message E m w)))) = Some (fdiv raw_lon (10 ^ 7))
       \<and> alt (state (obj (snd (handle_message E m w)))) = Some (fdiv raw_alt 1000)
       \<and> relative_alt (state (obj (snd (handle_message E m w)))) = Some (fdiv raw_rel 1000)"
proof -
  have si: "si_field (attr m k PNone) d = Inr (Some (fdiv f d))"
    if "num_val (attr m k PNone) = Some f" for k d f
    using that by (cases "attr m k PNone") (simp_all add: si_field_def truediv_def)
  have "handle_message E m w = track_boot_clock E m
          (upd_state (\<lambda>s. s\<lparr>lat := Some (fdiv raw_lat (10 ^ 7)),
                            lon := Some (fdiv raw_lon (10 ^ 7)),
                            alt := Some (fdiv raw_alt 1000),
                            relative_alt := Some (fdiv raw_rel 1000)\<rparr>) w)"
    using assms(1) si [OF assms(2)] si [OF assms(3)] si [OF assms(4)] si [OF assms(5)]
    by (simp add: handle_message_def handle_global_position_def store_position_def Let_def
        then_do_def upd_state_def)
  then show ?thesis
    by (simp add: track_boot_clock_position upd_state_def)
qed

text \<open>The example of the specification: raw latitude -74000000 and raw relative altitude 1500.\<close>

theorem position_si_units_witness:
  "lat (state (obj (snd (handle_message sample_env (sample_position 5000) (fresh_world 100)))))
     = Some (Fin (- 7.4))
   \<and> relative_alt (state (obj (snd (handle_message sample_env (sample_position 5000)
        (fresh_world 100))))) = Some (Fin 1.5)"
proof -
  have a: "mtype (sample_position 5000) = ''GLOBAL_POSITION_INT''"
    by (simp add: sample_position_def)
  have n: "num_val (attr (sample_position 5000) ''lat'' PNone) = Some (Fin (- 74000000))"
    "num_val (attr (sample_position 5000) ''lon'' PNone) = Some (Fin 1100000000)"
    "num_val (attr (sample_position 5000) ''alt'' PNone) = Some (Fin 120000)"
    "num_val (attr (sample_position 5000) ''relative_alt'' PNone) = Some (Fin 1500)"
    by (simp_all add: sample_position_def attr_def)
  show ?thesis
    using position_si_units [OF a n, of sample_env "fresh_world 100"] by simp
qed

subsection \<open>The recorder\<close>

text \<open>
  Claim C5 says that starting a session while one is active is an error. The code has no
  such check: a \<open>csv_start\<close> command on a world whose session is active returns the
  success value.
\<close>

theorem csv_start_counterexample:
  "logging_active (obj (recording_world 100))
   \<and> fst (handle_command sample_env [(''type'', PStr ''csv_start'')] (recording_world 100))
       = Inr (Some [(''status'', PStr ''started'')])"
  by (simp add: handle_command_def start_csv_logging_def Let_def dict_get_def
      recording_world_def)

text \<open>
  Claim C5, amended. A \<open>csv_start\<close> command never fails: whether or not a session is
  active, it empties the row buffer, activates the session, sets the held status
  \<open>CSV: recording\<close> for 2 s and returns \<open>{"status": "started"}\<close>.
\<close>

theorem csv_start_replaces:
  assumes "dict_get d ''type'' = PStr ''csv_start''"
  shows "handle_command E d w
           = (Inr (Some [(''status'', PStr ''started'')]),
              update_status E ''CSV: recording'' (Some 2)
                (w\<lparr>obj := (obj w)\<lparr>csv_rows := [], logging_active := True\<rparr>\<rparr>))
       \<and> csv_rows (obj (snd (handle_command E d w))) = []
       \<and> logging_active (obj (snd (handle_command E d w)))"
  using assms
  by (simp add: handle_command_def start_csv_logging_def Let_def update_status_def world_defs)

theorem csv_start_replaces_witness:
  "fst (handle_command sample_env [(''type'', PStr ''csv_start'')] (recording_world 100))
       = Inr (Some [(''status'', PStr ''started'')])
   \<and> csv_rows (obj (snd (handle_command sample_env [(''type'', PStr ''csv_start'')]
        (recording_world 100)))) = []
   \<and> logging_active (obj (snd (handle_command sample_env [(''type'', PStr ''csv_start'')]
        (fresh_world 100))))"
proof -
  have a: "dict_get [(''type'', PStr ''csv_start'')] ''type'' = PStr ''csv_start''"
    by (simp add: dict_get_def)
  show ?thesis
    using csv_start_replaces [OF a, of sample_env "recording_world 100"]
      csv_start_replaces [OF a, of sample_env "fresh_world 100"]
    by (simp add: update_status_def world_defs Let_def)
qed

text \<open>
  Claim C6. \<open>stop_csv_logging\<close> on an inactive session raises the error
  \<open>CSV belum dimulai\<close> and returns the world it was given, so nothing has changed. On
  an active session it deactivates, empties the buffer and changes nothing else, and it
  returns the base64 encoding of the table together with the file name
  \<open>slam-log-<seconds>.csv\<close> of the export instant. The table is the header line of ten
  fixed column names followed by one line per buffered row, in the order of the buffer.
  The line of a row is its fields separated by commas and ended by CR LF; the field of
  \<open>None\<close> is empty, the field of a number is what \<open>str\<close> prints for it, and the field of
  a string is the string.
\<close>

theorem stop_csv_logging_spec:
  "(\<not> logging_active (obj w) \<longrightarrow>
      stop_csv_logging E w = (Inl (Raised RuntimeError ''CSV belum dimulai''), w))
   \<and> (logging_active (obj w) \<longrightarrow>
      stop_csv_logging E w =
        (Inr [(''csv'', PStr (b64encode E (csv_table E (csv_rows (obj w))))),
              (''file_name'', PStr (''slam-log-'' @ str_int E (now_s E w) @ ''.csv''))],
         w\<lparr>obj := (obj w)\<lparr>logging_active := False, csv_rows := []\<rparr>\<rparr>))
   \<and> csv_table E rows =
       ''timestamp_log,timestamp_slam,slam_x,slam_y,slam_z,timestamp_mavlink,gps_lat,gps_lon,gps_alt,gps_alt_rel''
       @ [CHR 0x0D, CHR 0x0A] @ concat (map (writerow E) rows)
   \<and> length csv_header = 10
   \<and> writerow E [] = [CHR 0x0D, CHR 0x0A]
   \<and> writerow E [c] = csv_field E c @ [CHR 0x0D, CHR 0x0A]
   \<and> writerow E (c # c' # cs) = csv_field E c @ '','' @ writerow E (c' # cs)
   \<and> writerow E [c1, c2, c3, c4, c5, c6, c7, c8, c9, c10] =
       csv_field E c1 @ '','' @ csv_field E c2 @ '','' @ csv_field E c3 @ '',''
       @ csv_field E c4 @ '','' @ csv_field E c5 @ '','' @ csv_field E c6 @ '',''
       @ csv_field E c7 @ '','' @ csv_field E c8 @ '','' @ csv_field E c9 @ '',''
       @ csv_field E c10 @ [CHR 0x0D, CHR 0x0A]
   \<and> csv_field E PNone = []
   \<and> csv_field E (PInt i) = str_of E (PInt i)
   \<and> csv_field E (PFloat f) = str_of E (PFloat f)
   \<and> csv_field E (PStr s) = s"
proof -
  have stop: "(\<not> logging_active (obj w) \<longrightarrow>
      stop_csv_logging E w = (Inl (Raised RuntimeError ''CSV belum dimulai''), w))
   \<and> (logging_active (obj w) \<longrightarrow>
      stop_csv_logging E w =
        (Inr [(''csv'', PStr (b64encode E (csv_table E (csv_rows (obj w))))),
              (''file_name'', PStr (''slam-log-'' @ str_int E (now_s E w) @ ''.csv''))],
         w\<lparr>obj := (obj w)\<lparr>logging_active := False, csv_rows := []\<rparr>\<rparr>))"
    by (simp add: stop_csv_logging_def upd_obj_def Let_def now_s_def)
  have table: "csv_table E rows =
       ''timestamp_log,timestamp_slam,slam_x,slam_y,slam_z,timestamp_mavlink,gps_lat,gps_lon,gps_alt,gps_alt_rel''
       @ [CHR 0x0D, CHR 0x0A] @ concat (map (writerow E) rows)
     \<and> length csv_header = 10"
    by (simp add: csv_table_def writerow_def csv_header_def csv_field_def py_str_def)
  have row: "writerow E [] = [CHR 0x0D, CHR 0x0A]"
    "writerow E [c] = csv_field E c @ [CHR 0x0D, CHR 0x0A]"
    "writerow E (c # c' # cs) = csv_field E c @ '','' @ writerow E (c' # cs)"
    "writerow E [c1, c2, c3, c4, c5, c6, c7, c8, c9, c10] =
       csv_field E c1 @ '','' @ csv_field E c2 @ '','' @ csv_field E c3 @ '',''
       @ csv_field E c4 @ '','' @ csv_field E c5 @ '','' @ csv_field E c6 @ '',''
       @ csv_field E c7 @ '','' @ csv_field E c8 @ '','' @ csv_field E c9 @ '',''
       @ csv_field E c10 @ [CHR 0x0D, CHR 0x0A]"
    by (simp_all add: writerow_def)
  have field: "csv_field E PNone = []" "csv_field E (PInt i) = str_of E (PInt i)"
    "csv_field E (PFloat f) = str_of E (PFloat f)" "csv_field E (PStr s) = s"
    by (simp_all add: csv_field_def py_str_def)
  show ?thesis
    using stop table row field by blast
qed

text \<open>
  An inactive stop; a stop with one buffered row, whose numbers appear in the exported
  line; and a session that is started, receives one pose sample and is stopped: the row
  of that sample is the one data line of the table.
\<close>

theorem stop_csv_logging_spec_witness:
  "stop_csv_logging sample_env (fresh_world 100)
     = (Inl (Raised RuntimeError ''CSV belum dimulai''), fresh_world 100)
   \<and> fst (stop_csv_logging sample_env (recording_world 100))
     = Inr [(''csv'', PStr (b64encode sample_env
              (''timestamp_log,timestamp_slam,slam_x,slam_y,slam_z,timestamp_mavlink,gps_lat,gps_lon,gps_alt,gps_alt_rel''
               @ [CHR 0x0D, CHR 0x0A]
               @ ''1700000000000,1700000000000,1.0,2.0,3.0,,,,,'' @ [CHR 0x0D, CHR 0x0A]))),
            (''file_name'', PStr ''slam-log-1700000100.csv'')]
   \<and> csv_rows (obj (snd (stop_csv_logging sample_env (recording_world 100)))) = []
   \<and> \<not> logging_active (obj (snd (stop_csv_logging sample_env (recording_world 100))))
   \<and> fst (stop_csv_logging sample_env
        (snd (store_slam_pose sample_env
               (PDict (sample_pose (PInt 1700000000) (PFloat (Fin 2))))
               (snd (start_csv_logging sample_env (fresh_world 100))))))
     = Inr [(''csv'', PStr (b64encode sample_env
              (''timestamp_log,timestamp_slam,slam_x,slam_y,slam_z,timestamp_mavlink,gps_lat,gps_lon,gps_alt,gps_alt_rel''
               @ [CHR 0x0D, CHR 0x0A]
               @ ''1700000100000,1700000000000,1.0,2.0,3.0,,,,,'' @ [CHR 0x0D, CHR 0x0A]))),
            (''file_name'', PStr ''slam-log-1700000100.csv'')]"
proof -
  let ?w2 = "snd (store_slam_pose sample_env
               (PDict (sample_pose (PInt 1700000000) (PFloat (Fin 2))))
               (snd (start_csv_logging sample_env (fresh_world 100))))"
  note spec = stop_csv_logging_spec [where E = sample_env]
  have a: "\<not> logging_active (obj (fresh_world 100))" "logging_active (obj (recording_world 100))"
    by (simp_all add: sample_defs)
  have rows1: "csv_rows (obj (recording_world 100))
      = [[PInt 1700000000000, PInt 1700000000000, PFloat (Fin 1), PFloat (Fin 2),
          PFloat (Fin 3), PNone, PNone, PNone, PNone, PNone]]"
    by (simp add: sample_defs)
  have w2: "logging_active (obj ?w2)" "clock ?w2 = 100"
    "csv_rows (obj ?w2)
      = [[PInt 1700000100000, PInt 1700000000000, PFloat (Fin 1), PFloat (Fin 2),
          PFloat (Fin 3), PNone, PNone, PNone, PNone, PNone]]"
    by (simp_all add: store_slam_pose_def pose_timestamp_def append_log_row_def
        start_csv_logging_def update_status_def Let_def world_defs sample_pose_def
        dict_get_def safe_float_def trunc_def now_ms_def sample_defs)
  have str: "str_of sample_env (PInt 1700000000000) = ''1700000000000''"
    "str_of sample_env (PInt 1700000100000) = ''1700000100000''"
    "str_of sample_env (PFloat (Fin 1)) = ''1.0''"
    "str_of sample_env (PFloat (Fin 2)) = ''2.0''"
    "str_of sample_env (PFloat (Fin 3)) = ''3.0''"
    by (simp_all add: sample_env_def)
  have line: "writerow sample_env [PInt t, PInt 1700000000000, PFloat (Fin 1), PFloat (Fin 2),
          PFloat (Fin 3), PNone, PNone, PNone, PNone, PNone]
      = str_of sample_env (PInt t) @ '',1700000000000,1.0,2.0,3.0,,,,,'' @ [CHR 0x0D, CHR 0x0A]"
    for t
    using spec [of "fresh_world 100" "[]"] str by simp
  have table: "csv_table sample_env [[PInt t, PInt 1700000000000, PFloat (Fin 1),
          PFloat (Fin 2), PFloat (Fin 3), PNone, PNone, PNone, PNone, PNone]]
      = ''timestamp_log,timestamp_slam,slam_x,slam_y,slam_z,timestamp_mavlink,gps_lat,gps_lon,gps_alt,gps_alt_rel''
        @ [CHR 0x0D, CHR 0x0A]
        @ str_of sample_env (PInt t) @ '',1700000000000,1.0,2.0,3.0,,,,,'' @ [CHR 0x0D, CHR 0x0A]"
    for t
    using spec [of "fresh_world 100" "[[PInt t, PInt 1700000000000, PFloat (Fin 1),
          PFloat (Fin 2), PFloat (Fin 3), PNone, PNone, PNone, PNone, PNone]]"] line [of t]
    by simp
  have t: "str_int sample_env (now_s sample_env (recording_world 100)) = ''1700000100''"
    "str_int sample_env (now_s sample_env ?w2) = ''1700000100''"
    using w2(2) by (simp_all add: now_s_def sample_defs trunc_def str_int_def)
  have 1: "stop_csv_logging sample_env (fresh_world 100)
     = (Inl (Raised RuntimeError ''CSV belum dimulai''), fresh_world 100)"
    using spec [of "fresh_world 100" "[]"] a(1) by blast
  have 2: "stop_csv_logging sample_env (recording_world 100) =
        (Inr [(''csv'', PStr (b64encode sample_env
                 (csv_table sample_env (csv_rows (obj (recording_world 100)))))),
              (''file_name'', PStr (''slam-log-''
                 @ str_int sample_env (now_s sample_env (recording_world 100)) @ ''.csv''))],
         (recording_world 100)\<lparr>obj := (obj (recording_world 100))
            \<lparr>logging_active := False, csv_rows := []\<rparr>\<rparr>)"
    using spec [of "recording_world 100" "[]"] a(2) by blast
  have 3: "stop_csv_logging sample_env ?w2 =
        (Inr [(''csv'', PStr (b64encode sample_env (csv_table sample_env (csv_rows (obj ?w2))))),
              (''file_name'', PStr (''slam-log-''
                 @ str_int sample_env (now_s sample_env ?w2) @ ''.csv''))],
         ?w2\<lparr>obj := (obj ?w2)\<lparr>logging_active := False, csv_rows := []\<rparr>\<rparr>)"
    using spec [of ?w2 "[]"] w2(1) by blast
  show ?thesis
    unfolding 1 2 3 t rows1 w2(3) table str by simp
qed

subsection \<open>Pose samples\<close>

lemma safe_float_missing: "map_of d k = None \<Longrightarrow> safe_float E (dict_get d k) = None"
  by (simp add: dict_get_def safe_float_def)

text \<open>What \<open>_safe_float\<close> does not resolve: \<open>None\<close>, a string that is no number, a list, a dict.\<close>

lemma safe_float_None_iff:
  "safe_float E v = None \<longleftrightarrow>
     v = PNone \<or> (\<exists>s. v = PStr s \<and> parse_float E s = None)
     \<or> (\<exists>xs. v = PList xs) \<or> (\<exists>kvs. v = PDict kvs)"
  by (cases v) (simp_all add: safe_float_def split: option.split)

text \<open>
  Claim C7. When one of the keys \<open>x\<close>, \<open>y\<close>, \<open>z\<close> of a pose payload is missing or holds a
  value that \<open>_safe_float\<close> does not resolve, \<open>store_slam_pose\<close> returns the world it was
  given: the object with its state, latest pose and row buffer, and the output, are all
  as before the call.
\<close>

theorem rejected_pose_changes_nothing:
  assumes "k \<in> {''x'', ''y'', ''z''}"
    and "map_of d k = None \<or> safe_float E (dict_get d k) = None"
  shows "snd (store_slam_pose E (PDict d) w) = w"
proof -
  have "safe_float E (dict_get d k) = None"
    using assms(2) safe_float_missing by blast
  then have "safe_float E (dict_get d ''x'') = None \<or> safe_float E (dict_get d ''y'') = None
      \<or> safe_float E (dict_get d ''z'') = None"
    using assms(1) by auto
  then show ?thesis
    by (auto simp add: store_slam_pose_def Let_def split: sum.split)
qed

text \<open>A payload whose \<open>y\<close> is the string \<open>abc\<close>, and one without \<open>z\<close>, while recording.\<close>

theorem rejected_pose_changes_nothing_witness:
  "snd (store_slam_pose sample_env (PDict (sample_pose (PInt 1700000000) (PStr ''abc'')))
          (recording_world 100)) = recording_world 100
   \<and> snd (store_slam_pose sample_env
          (PDict [(''timestamp'', PInt 1700000000), (''x'', PFloat (Fin 1)),
                  (''y'', PFloat (Fin 2))])
          (recording_world 100)) = recording_world 100"
proof -
  have a: "''y'' \<in> {''x'', ''y'', ''z''}" "''z'' \<in> {''x'', ''y'', ''z''}"
    by simp_all
  have b: "map_of (sample_pose (PInt 1700000000) (PStr ''abc'')) ''y'' = None
      \<or> safe_float sample_env (dict_get (sample_pose (PInt 1700000000) (PStr ''abc'')) ''y'')
          = None"
    by (simp add: sample_pose_def dict_get_def safe_float_def sample_env_def)
  have c: "map_of [(''timestamp'', PInt 1700000000), (''x'', PFloat (Fin 1)),
                   (''y'', PFloat (Fin 2))] ''z'' = None
      \<or> safe_float sample_env (dict_get [(''timestamp'', PInt 1700000000),
            (''x'', PFloat (Fin 1)), (''y'', PFloat (Fin 2))] ''z'') = None"
    by simp
  show ?thesis
    using rejected_pose_changes_nothing [OF a(1) b] rejected_pose_changes_nothing [OF a(2) c]
    by simp
qed

lemma append_log_row_frame:
  "latest_slam (obj (append_log_row E w)) = latest_slam (obj w)"
  "last_slam_timestamp (state (obj (append_log_row E w))) = last_slam_timestamp (state (obj w))"
  "last_slam_delta_ms (state (obj (append_log_row E w))) = last_slam_delta_ms (state (obj w))"
  by (simp_all add: append_log_row_def Let_def world_defs split: option.split)

lemma trunc_of_int: "trunc (of_int i) = i"
  by (simp add: trunc_def)

lemma trunc_ge: "10 ^ 12 \<le> r \<Longrightarrow> \<not> trunc r < 10 ^ 12"
proof -
  assume a: "10 ^ 12 \<le> r"
  then have "0 \<le> r"
    by (rule order_trans [rotated]) simp
  moreover have "(10 ^ 12 :: int) \<le> \<lfloor>r\<rfloor>"
    using a by (simp add: le_floor_iff)
  ultimately show ?thesis
    by (simp add: trunc_def)
qed

text \<open>The timestamp that an accepted pose sample stores, for a finite numeric payload value.\<close>

lemma store_slam_pose_timestamp:
  assumes "safe_float E (dict_get d ''timestamp'') = Some (Fin r)"
    and "safe_float E (dict_get d ''x'') \<noteq> None"
    and "safe_float E (dict_get d ''y'') \<noteq> None"
    and "safe_float E (dict_get d ''z'') \<noteq> None"
  shows "last_slam_timestamp (state (obj (snd (store_slam_pose E (PDict d) w))))
           = Some (if trunc r < 10 ^ 12 then trunc r * 1000 else trunc r)"
    and "slam_timestamp (latest_slam (obj (snd (store_slam_pose E (PDict d) w))))
           = Some (if trunc r < 10 ^ 12 then trunc r * 1000 else trunc r)"
    and "last_slam_delta_ms (state (obj (snd (store_slam_pose E (PDict d) w))))
           = Some (now_ms E w - (if trunc r < 10 ^ 12 then trunc r * 1000 else trunc r))"
proof -
  have "d \<noteq> []"
    using assms(1) by (auto simp: dict_get_def safe_float_def)
  moreover obtain x y z where "safe_float E (dict_get d ''x'') = Some x"
    "safe_float E (dict_get d ''y'') = Some y" "safe_float E (dict_get d ''z'') = Some z"
    using assms(2-4) by auto
  ultimately show
    "last_slam_timestamp (state (obj (snd (store_slam_pose E (PDict d) w))))
           = Some (if trunc r < 10 ^ 12 then trunc r * 1000 else trunc r)"
    "slam_timestamp (latest_slam (obj (snd (store_slam_pose E (PDict d) w))))
           = Some (if trunc r < 10 ^ 12 then trunc r * 1000 else trunc r)"
    "last_slam_delta_ms (state (obj (snd (store_slam_pose E (PDict d) w))))
           = Some (now_ms E w - (if trunc r < 10 ^ 12 then trunc r * 1000 else trunc r))"
    using assms(1)
    by (simp_all add: store_slam_pose_def pose_timestamp_def Let_def append_log_row_frame
        world_defs)
qed

text \<open>
  Claim C9 says that a value below \<open>10\<^sup>1\<^sup>2\<close> is multiplied by 1000 and a value at or above
  \<open>10\<^sup>1\<^sup>2\<close> is left unchanged. The code converts the value to an integer first: the
  millisecond value 1700000000000.7 is stored as 1700000000000, and the value
  1700000000.5, in seconds, is stored as 1700000000000 as well, not as 1700000000500.
\<close>

theorem pose_timestamp_counterexample:
  "last_slam_timestamp (state (obj (snd (store_slam_pose sample_env
       (PDict (sample_pose (PFloat (Fin 1700000000000.7)) (PFloat (Fin 2)))) (fresh_world 100)))))
     = Some 1700000000000
   \<and> (1700000000000.7 :: real) \<ge> 10 ^ 12
   \<and> of_int 1700000000000 \<noteq> (1700000000000.7 :: real)
   \<and> last_slam_timestamp (state (obj (snd (store_slam_pose sample_env
       (PDict (sample_pose (PFloat (Fin 1700000000.5)) (PFloat (Fin 2)))) (fresh_world 100)))))
     = Some 1700000000000
   \<and> (1700000000.5 :: real) < 10 ^ 12
   \<and> of_int 1700000000000 \<noteq> (1700000000.5 :: real) * 1000"
  by (simp add: store_slam_pose_def pose_timestamp_def Let_def append_log_row_def world_defs
      sample_pose_def dict_get_def safe_float_def trunc_def fresh_world_def init_bridge_def
      sample_env_def now_ms_def)

text \<open>
  Claim C9, amended. For a finite numeric timestamp of an accepted pose sample, the
  threshold \<open>10\<^sup>1\<^sup>2\<close> is applied before the timestamp is used: a value at or above it is
  stored truncated to an integer number of milliseconds, so an integer is unchanged; an
  integer value strictly below it is multiplied by 1000. The stored delta is the host
  time minus the timestamp so normalised.
\<close>

theorem pose_timestamp_threshold:
  assumes "safe_float E (dict_get d ''timestamp'') = Some (Fin r)"
    and "safe_float E (dict_get d ''x'') \<noteq> None"
    and "safe_float E (dict_get d ''y'') \<noteq> None"
    and "safe_float E (dict_get d ''z'') \<noteq> None"
  shows "(10 ^ 12 \<le> r \<longrightarrow>
            last_slam_timestamp (state (obj (snd (store_slam_pose E (PDict d) w))))
              = Some (trunc r)
          \<and> slam_timestamp (latest_slam (obj (snd (store_slam_pose E (PDict d) w))))
              = Some (trunc r)
          \<and> last_slam_delta_ms (state (obj (snd (store_slam_pose E (PDict d) w))))
              = Some (now_ms E w - trunc r))
       \<and> (\<forall>i. r = of_int i \<and> i < 10 ^ 12 \<longrightarrow>
            last_slam_timestamp (state (obj (snd (store_slam_pose E (PDict d) w))))
              = Some (i * 1000)
          \<and> slam_timestamp (latest_slam (obj (snd (store_slam_pose E (PDict d) w))))
              = Some (i * 1000)
          \<and> last_slam_delta_ms (state (obj (snd (store_slam_pose E (PDict d) w))))
              = Some (now_ms E w - i * 1000))"
proof -
  let ?ts = "if trunc r < 10 ^ 12 then trunc r * 1000 else trunc r"
  have a: "?ts = trunc r" if "10 ^ 12 \<le> r"
    using trunc_ge [OF that] by simp
  have b: "?ts = i * 1000" if "r = of_int i" "i < 10 ^ 12" for i
    using that by (simp add: trunc_of_int)
  show ?thesis
    unfolding store_slam_pose_timestamp [OF assms, of w] using a b by auto
qed

text \<open>The two examples of the specification: 1700000000 and 1700000000000.\<close>

theorem pose_timestamp_threshold_witness:
  "last_slam_timestamp (state (obj (snd (store_slam_pose sample_env
       (PDict (sample_pose (PInt 1700000000) (PFloat (Fin 2)))) (fresh_world 100)))))
     = Some 1700000000000
   \<and> last_slam_timestamp (state (obj (snd (store_slam_pose sample_env
       (PDict (sample_pose (PInt 1700000000000) (PFloat (Fin 2)))) (fresh_world 100)))))
     = Some 1700000000000"
proof -
  have t: "safe_float sample_env (dict_get (sample_pose (PInt i) (PFloat (Fin 2))) ''timestamp'')
             = Some (Fin (of_int i))" for i
    by (simp add: sample_pose_def dict_get_def safe_float_def)
  have x: "safe_float sample_env (dict_get (sample_pose ts (PFloat (Fin 2))) ''x'') \<noteq> None"
    "safe_float sample_env (dict_get (sample_pose ts (PFloat (Fin 2))) ''y'') \<noteq> None"
    "safe_float sample_env (dict_get (sample_pose ts (PFloat (Fin 2))) ''z'') \<noteq> None" for ts
    by (simp_all add: sample_pose_def dict_get_def safe_float_def)
  have "last_slam_timestamp (state (obj (snd (store_slam_pose sample_env
       (PDict (sample_pose (PInt 1700000000) (PFloat (Fin 2)))) (fresh_world 100)))))
     = Some (1700000000 * 1000)"
    using pose_timestamp_threshold [OF t x, of 1700000000 "fresh_world 100"] by simp
  moreover have "last_slam_timestamp (state (obj (snd (store_slam_pose sample_env
       (PDict (sample_pose (PInt 1700000000000) (PFloat (Fin 2)))) (fresh_world 100)))))
     = Some (trunc (of_int 1700000000000))"
    using pose_timestamp_threshold [OF t x, of 1700000000000 "fresh_world 100"] by simp
  ultimately show ?thesis
    by (simp add: trunc_def)
qed

subsection \<open>Fields that a message does not supply\<close>

lemma store_position_ok:
  assumes "fst (store_position m w) = None"
  shows "\<exists>v1 v2 v3 v4.
           si_field (attr m ''lat'' PNone) (10 ^ 7) = Inr v1
         \<and> si_field (attr m ''lon'' PNone) (10 ^ 7) = Inr v2
         \<and> si_field (attr m ''alt'' PNone) 1000 = Inr v3
         \<and> si_field (attr m ''relative_alt'' PNone) 1000 = Inr v4
         \<and> snd (store_position m w)
             = upd_state (\<lambda>s. s\<lparr>lat := v1, lon := v2, alt := v3, relative_alt := v4\<rparr>) w"
  using assms
  by (auto simp: store_position_def Let_def upd_state_def split: sum.splits)

lemma handle_position_ok:
  assumes "mtype m = ''GLOBAL_POSITION_INT''"
    and "fst (handle_message E m w) = None"
  shows "si_field (attr m ''lat'' PNone) (10 ^ 7)
           = Inr (lat (state (obj (snd (handle_message E m w)))))
       \<and> si_field (attr m ''lon'' PNone) (10 ^ 7)
           = Inr (lon (state (obj (snd (handle_message E m w)))))
       \<and> si_field (attr m ''alt'' PNone) 1000
           = Inr (alt (state (obj (snd (handle_message E m w)))))
       \<and> si_field (attr m ''relative_alt'' PNone) 1000
           = Inr (relative_alt (state (obj (snd (handle_message E m w)))))"
proof -
  obtain r w4 where sp: "store_position m w = (r, w4)"
    by (cases "store_position m w")
  have hm: "handle_message E m w = then_do (r, w4) (track_boot_clock E m)"
    using assms(1) sp by (simp add: handle_message_def handle_global_position_def)
  have r: "r = None"
    using assms(2) hm by (cases r) (simp_all add: then_do_def)
  have "handle_message E m w = track_boot_clock E m w4"
    using hm r by (simp add: then_do_def)
  moreover have "fst (store_position m w) = None" "snd (store_position m w) = w4"
    using sp r by simp_all
  ultimately show ?thesis
    using store_position_ok [of m w]
    by (auto simp: track_boot_clock_position upd_state_def)
qed

text \<open>
  Claim C8 says that a field whose value is missing or not convertible keeps its previous
  value. In the code a VFR\_HUD message without a heading, and with a climb rate that is
  no number, sets both fields to \<open>None\<close> although the state held values for them.
\<close>

theorem kept_field_counterexample:
  "heading (state (obj (cruise_world 100))) = Some (Fin 90)
   \<and> map_of (attrs sample_vfr_hud) ''heading'' = None
   \<and> heading (state (obj (snd (handle_message sample_env sample_vfr_hud (cruise_world 100)))))
       = None
   \<and> climb (state (obj (cruise_world 100))) = Some (Fin 1)
   \<and> map_of (attrs sample_vfr_hud) ''climb'' = Some (PStr ''up'')
   \<and> climb (state (obj (snd (handle_message sample_env sample_vfr_hud (cruise_world 100)))))
       = None"
  by (simp add: handle_message_def handle_vfr_hud_def Let_def world_defs sample_vfr_hud_def
      attr_def safe_float_def sample_env_def cruise_world_def init_bridge_def init_state_def)

text \<open>
  Claim C8, amended. A numeric field that a message does not supply in convertible form
  is stored as \<open>None\<close>, whatever the state held before: heading, barometric altitude and
  climb rate of a VFR\_HUD message whose value is missing or not convertible; the
  dilution of precision of a GPS\_RAW\_INT message whose \<open>eph\<close> is missing or not
  convertible; and each position field that is missing from a GLOBAL\_POSITION\_INT
  message applied without an exception.
\<close>

theorem missing_field_is_cleared:
  "(mtype m = ''VFR_HUD'' \<and> safe_float E (attr m ''heading'' PNone) = None \<longrightarrow>
      heading (state (obj (snd (handle_message E m w)))) = None)
   \<and> (mtype m = ''VFR_HUD'' \<and> safe_float E (attr m ''alt'' PNone) = None \<longrightarrow>
      baro_alt (state (obj (snd (handle_message E m w)))) = None)
   \<and> (mtype m = ''VFR_HUD'' \<and> safe_float E (attr m ''climb'' PNone) = None \<longrightarrow>
      climb (state (obj (snd (handle_message E m w)))) = None)
   \<and> (mtype m = ''GPS_RAW_INT'' \<and> safe_float E (attr m ''eph'' PNone) = None \<longrightarrow>
      hdop (state (obj (snd (handle_message E m w)))) = None)
   \<and> (mtype m = ''GLOBAL_POSITION_INT'' \<and> fst (handle_message E m w) = None \<longrightarrow>
        (attr m ''lat'' PNone = PNone \<longrightarrow>
           lat (state (obj (snd (handle_message E m w)))) = None)
      \<and> (attr m ''lon'' PNone = PNone \<longrightarrow>
           lon (state (obj (snd (handle_message E m w)))) = None)
      \<and> (attr m ''alt'' PNone = PNone \<longrightarrow>
           alt (state (obj (snd (handle_message E m w)))) = None)
      \<and> (attr m ''relative_alt'' PNone = PNone \<longrightarrow>
           relative_alt (state (obj (snd (handle_message E m w)))) = None))"
proof -
  have vfr: "mtype m = ''VFR_HUD'' \<Longrightarrow>
      heading (state (obj (snd (handle_message E m w)))) = safe_float E (attr m ''heading'' PNone)
      \<and> baro_alt (state (obj (snd (handle_message E m w)))) = safe_float E (attr m ''alt'' PNone)
      \<and> climb (state (obj (snd (handle_message E m w)))) = safe_float E (attr m ''climb'' PNone)"
    by (simp add: handle_message_def handle_vfr_hud_def Let_def world_defs)
  have gps: "mtype m = ''GPS_RAW_INT'' \<Longrightarrow> safe_float E (attr m ''eph'' PNone) = None \<Longrightarrow>
      hdop (state (obj (snd (handle_message E m w)))) = None"
    by (simp add: handle_message_def handle_gps_raw_def Let_def world_defs safe_float_def
        split: if_splits sum.splits)
  have none: "si_field PNone d = Inr None" for d
    by (simp add: si_field_def)
  have pos: "mtype m = ''GLOBAL_POSITION_INT'' \<Longrightarrow> fst (handle_message E m w) = None \<Longrightarrow>
        (attr m ''lat'' PNone = PNone \<longrightarrow>
           lat (state (obj (snd (handle_message E m w)))) = None)
      \<and> (attr m ''lon'' PNone = PNone \<longrightarrow>
           lon (state (obj (snd (handle_message E m w)))) = None)
      \<and> (attr m ''alt'' PNone = PNone \<longrightarrow>
           alt (state (obj (snd (handle_message E m w)))) = None)
      \<and> (attr m ''relative_alt'' PNone = PNone \<longrightarrow>
           relative_alt (state (obj (snd (handle_message E m w)))) = None)"
    using handle_position_ok [of m E w] none by (metis sum.inject(2))
  show ?thesis
    using vfr gps pos by presburger
qed

theorem missing_field_is_cleared_witness:
  "heading (state (obj (snd (handle_message sample_env sample_vfr_hud (cruise_world 100))))) = None
   \<and> climb (state (obj (snd (handle_message sample_env sample_vfr_hud (cruise_world 100))))) = None"
proof -
  have a: "mtype sample_vfr_hud = ''VFR_HUD''"
    by (simp add: sample_vfr_hud_def)
  have b: "safe_float sample_env (attr sample_vfr_hud ''heading'' PNone) = None"
    "safe_float sample_env (attr sample_vfr_hud ''climb'' PNone) = None"
    by (simp_all add: sample_vfr_hud_def attr_def safe_float_def sample_env_def)
  show ?thesis
    using missing_field_is_cleared [of sample_vfr_hud sample_env "cruise_world 100"] a b
    by blast
qed

subsection \<open>Commands without a result\<close>

lemma no_result_since_refl: "no_result_since w w"
  by (simp add: no_result_since_def)

lemma no_result_since_log:
  "no_result_since w w' \<Longrightarrow> no_result_since w (log_line msg lvl w')"
proof -
  assume a: "no_result_since w w'"
  then have "emitted w' = emitted w @ drop (length (emitted w)) (emitted w')"
    by (metis append_take_drop_id no_result_since_def)
  then obtain ls where ls: "emitted w' = emitted w @ ls" "list_all (\<lambda>e. \<not> is_result e) ls"
    using a by (auto simp: no_result_since_def)
  then show ?thesis
    by (simp add: no_result_since_def log_line_def emit_def)
qed

lemma no_result_since_upd:
  "no_result_since w w' \<Longrightarrow> no_result_since w (upd_state f w')"
  "no_result_since w w' \<Longrightarrow> no_result_since w (upd_obj g w')"
  by (simp_all add: no_result_since_def upd_state_def upd_obj_def)

lemma append_log_row_emits:
  "no_result_since w w' \<Longrightarrow> no_result_since w (append_log_row E w')"
  by (simp add: append_log_row_def Let_def no_result_since_log no_result_since_upd
      split: option.split)

lemma store_slam_pose_emits: "no_result_since w (snd (store_slam_pose E p w))"
  by (simp add: store_slam_pose_def Let_def no_result_since_refl no_result_since_log
      no_result_since_upd append_log_row_emits split: pyval.split sum.split)

text \<open>An exception of \<open>store_slam_pose\<close> is raised before anything is written.\<close>

lemma store_slam_pose_raises:
  assumes "store_slam_pose E p w = (Some exc, w1)"
  shows "w1 = w"
  using assms
  by (auto simp: store_slam_pose_def Let_def split: if_splits pyval.splits sum.splits)

text \<open>
  Claim C10. Executing a command of type \<open>slam_pose\<close> raises nothing and writes no
  command result: what it adds to the output holds no result object, and when
  \<open>store_slam_pose\<close> raises, the only object added is the log line of the failure. The
  dict of result types has no entry for \<open>slam_pose\<close>; its keys are \<open>set_mode\<close>,
  \<open>takeoff\<close>, \<open>csv_start\<close> and \<open>csv_stop\<close>.
\<close>

theorem slam_pose_has_no_result:
  assumes "dict_get d ''type'' = PStr ''slam_pose''"
  shows "fst (execute_command E (PDict d) w) = None
       \<and> no_result_since w (snd (execute_command E (PDict d) w))
       \<and> (\<forall>exc w1. store_slam_pose E (dict_get d ''data'') w = (Some exc, w1) \<longrightarrow>
             emitted (snd (execute_command E (PDict d) w))
               = emitted w @ [Log (''Command slam_pose failed: '' @ exc_text exc) ''error''])
       \<and> map_of result_types ''slam_pose'' = None
       \<and> map fst result_types = [''set_mode'', ''takeoff'', ''csv_start'', ''csv_stop'']"
proof -
  obtain r w1 where sp: "store_slam_pose E (dict_get d ''data'') w = (r, w1)"
    by (cases "store_slam_pose E (dict_get d ''data'') w")
  have nr: "no_result_since w w1"
    using store_slam_pose_emits [of w E "dict_get d ''data''"] sp by simp
  have hc: "handle_command E d w
              = (case r of Some e \<Rightarrow> (Inl e, w1) | None \<Rightarrow> (Inr None, w1))"
    using assms sp by (simp add: handle_command_def Let_def)
  have ex: "execute_command E (PDict d) w
              = (None, case r of
                         Some e \<Rightarrow> log_line (''Command slam_pose failed: '' @ exc_text e)
                                     ''error'' w1
                       | None \<Rightarrow> w1)"
    using assms hc
    by (cases r) (simp_all add: execute_command_def Let_def result_types_def py_str_def)
  have same: "w1 = w" if "r = Some e" for e
    using sp that store_slam_pose_raises by blast
  have p2: "no_result_since w (snd (execute_command E (PDict d) w))"
    unfolding ex using nr by (cases r) (simp_all add: no_result_since_log)
  have p3: "\<forall>exc w1. store_slam_pose E (dict_get d ''data'') w = (Some exc, w1) \<longrightarrow>
             emitted (snd (execute_command E (PDict d) w))
               = emitted w @ [Log (''Command slam_pose failed: '' @ exc_text exc) ''error'']"
    unfolding ex sp using same by (simp add: log_line_def emit_def)
  show ?thesis
    using p2 p3 by (simp add: ex result_types_def)
qed

text \<open>
  A valid pose replaces the latest pose sample and no result is written; a payload whose
  \<open>data\<close> is a string makes \<open>store_slam_pose\<close> raise, and only the log line is written.
\<close>

theorem slam_pose_has_no_result_witness:
  "filter is_result (emitted (snd (execute_command sample_env
      (PDict [(''type'', PStr ''slam_pose''), (''request_id'', PInt 7),
              (''data'', PDict (sample_pose (PInt 1700000000) (PFloat (Fin 2))))])
      (fresh_world 100)))) = []
   \<and> slam_x (latest_slam (obj (snd (execute_command sample_env
      (PDict [(''type'', PStr ''slam_pose''), (''request_id'', PInt 7),
              (''data'', PDict (sample_pose (PInt 1700000000) (PFloat (Fin 2))))])
      (fresh_world 100))))) = Some (Fin 1)
   \<and> emitted (snd (execute_command sample_env
      (PDict [(''type'', PStr ''slam_pose''), (''request_id'', PInt 7),
              (''data'', PStr ''abc'')])
      (fresh_world 100)))
     = [Log ''Command slam_pose failed: object has no attribute get'' ''error'']"
proof -
  let ?d1 = "[(''type'', PStr ''slam_pose''), (''request_id'', PInt 7),
              (''data'', PDict (sample_pose (PInt 1700000000) (PFloat (Fin 2))))]"
  let ?d2 = "[(''type'', PStr ''slam_pose''), (''request_id'', PInt 7), (''data'', PStr ''abc'')]"
  have a: "dict_get ?d1 ''type'' = PStr ''slam_pose''" "dict_get ?d2 ''type'' = PStr ''slam_pose''"
    by (simp_all add: dict_get_def)
  have r: "store_slam_pose sample_env (dict_get ?d2 ''data'') (fresh_world 100)
             = (Some (Raised AttributeError ''object has no attribute get''), fresh_world 100)"
    by (simp add: store_slam_pose_def dict_get_def)
  have e0: "emitted (fresh_world 100) = []"
    by (simp add: fresh_world_def)
  have x: "slam_x (latest_slam (obj (snd (execute_command sample_env (PDict ?d1)
             (fresh_world 100))))) = Some (Fin 1)"
    by (simp add: execute_command_def handle_command_def store_slam_pose_def Let_def
        pose_timestamp_def dict_get_def sample_pose_def safe_float_def result_types_def
        world_defs sample_defs trunc_def now_ms_def)
  show ?thesis
    using slam_pose_has_no_result [OF a(1), of sample_env "fresh_world 100"]
      slam_pose_has_no_result [OF a(2), of sample_env "fresh_world 100"] r e0 x
    by (simp add: no_result_since_def list_all_iff filter_empty_conv)
qed

subsection \<open>The takeoff sequence when the mode never becomes GUIDED\<close>

lemma sleep_trace_frame:
  "sent ((sleep_interval E ^^ n) w) = sent w"
  "emitted ((sleep_interval E ^^ n) w) = emitted w"
  by (induction n) (simp_all add: sleep_interval_def)

text \<open>
  If the predicate is false at every poll that happens up to \<open>end_time\<close>, the loop ends
  with the timeout error, in the world reached after some number of sleeps.
\<close>

lemma wait_loop_timeout:
  assumes "\<forall>n. clock ((sleep_interval E ^^ n) w) \<le> end_time \<longrightarrow>
               \<not> predicate (obj ((sleep_interval E ^^ n) w))"
  shows "\<exists>n. wait_loop E predicate end_time description w
              = (Some (Raised TimeoutError (''Timed out waiting for '' @ description)),
                 (sleep_interval E ^^ n) w)"
  using assms
proof (induction E predicate end_time description w rule: wait_loop.induct)
  case (1 E predicate end_time description w)
  show ?case
  proof (cases "clock w \<le> end_time")
    case False
    then have "wait_loop E predicate end_time description w
                 = (Some (Raised TimeoutError (''Timed out waiting for '' @ description)),
                    (sleep_interval E ^^ 0) w)"
      by (subst wait_loop.simps) simp
    then show ?thesis by blast
  next
    case True
    have np: "\<not> predicate (obj w)"
      using "1.prems" True by (metis funpow_0)
    have "\<forall>n. clock ((sleep_interval E ^^ n) (sleep_interval E w)) \<le> end_time \<longrightarrow>
               \<not> predicate (obj ((sleep_interval E ^^ n) (sleep_interval E w)))"
    proof
      fix n
      show "clock ((sleep_interval E ^^ n) (sleep_interval E w)) \<le> end_time \<longrightarrow>
               \<not> predicate (obj ((sleep_interval E ^^ n) (sleep_interval E w)))"
        using "1.prems" [rule_format, of "Suc n"] by (simp add: funpow_swap1)
    qed
    from "1.IH" [OF True np this] obtain n where
      "wait_loop E predicate end_time description (sleep_interval E w)
         = (Some (Raised TimeoutError (''Timed out waiting for '' @ description)),
            (sleep_interval E ^^ n) (sleep_interval E w))"
      by blast
    then have "wait_loop E predicate end_time description w
         = (Some (Raised TimeoutError (''Timed out waiting for '' @ description)),
            (sleep_interval E ^^ Suc n) w)"
      using True np by (subst wait_loop.simps) (simp add: funpow_swap1)
    then show ?thesis by blast
  qed
qed

lemma update_status_frame:
  "master (obj (update_status E text h w)) = master (obj w)"
  "clock (update_status E text h w) = clock w"
  "sent (update_status E text h w) = sent w"
  "emitted (update_status E text h w)
     = emitted w @ [Telemetry (state (obj (update_status E text h w)))]"
  by (simp_all add: update_status_def Let_def world_defs)

lemma set_mode_guided:
  assumes "master (obj w) = Some l"
    and "map_of (case mode_mapping l of None \<Rightarrow> [] | Some mp \<Rightarrow> mp) ''GUIDED'' = Some gid"
  shows "set_mode E ''GUIDED'' w
           = (None, w\<lparr>sent := sent w @
                [CommandLong (target_system l) (target_component l) MAV_CMD_DO_SET_MODE 0
                   [PInt 9, PInt gid, PInt 0, PInt 0, PInt 0, PInt 0, PInt 0],
                 SetModeSend (target_system l) 9 gid]\<rparr>)"
  using assms
  by (simp add: set_mode_def Let_def MODE_EXTRA_FLAGS_def send_def
      MAV_MODE_FLAG_CUSTOM_MODE_ENABLED_def MAV_MODE_FLAG_GUIDED_ENABLED_def)

lemma takeoff_sequence_timeout:
  assumes "master (obj w) = Some l"
    and "map_of (case mode_mapping l of None \<Rightarrow> [] | Some mp \<Rightarrow> mp) ''GUIDED'' = Some gid"
    and "\<forall>n. clock ((sleep_interval E ^^ n)
                 (snd (set_mode E ''GUIDED''
                        (update_status E ''TAKEOFF: switching to GUIDED'' None w))))
               \<le> clock w + 15
             \<longrightarrow> \<not> mode_is_guided (obj ((sleep_interval E ^^ n)
                 (snd (set_mode E ''GUIDED''
                        (update_status E ''TAKEOFF: switching to GUIDED'' None w)))))"
  shows "\<exists>w'. takeoff_sequence E altitude w
                = (Some (Raised TimeoutError ''Timed out waiting for mode GUIDED''), w')
            \<and> sent w' = sent w @
                [CommandLong (target_system l) (target_component l) MAV_CMD_DO_SET_MODE 0
                   [PInt 9, PInt gid, PInt 0, PInt 0, PInt 0, PInt 0, PInt 0],
                 SetModeSend (target_system l) 9 gid]
            \<and> emitted w' = emitted w @
                [Telemetry (state (obj (update_status E ''TAKEOFF: switching to GUIDED''
                                         None w)))]"
proof -
  let ?wu = "update_status E ''TAKEOFF: switching to GUIDED'' None w"
  let ?w1 = "?wu\<lparr>sent := sent ?wu @
                [CommandLong (target_system l) (target_component l) MAV_CMD_DO_SET_MODE 0
                   [PInt 9, PInt gid, PInt 0, PInt 0, PInt 0, PInt 0, PInt 0],
                 SetModeSend (target_system l) 9 gid]\<rparr>"
  have m: "master (obj ?wu) = Some l"
    using assms(1) by (simp add: update_status_frame)
  have sm: "set_mode E ''GUIDED'' ?wu = (None, ?w1)"
    by (rule set_mode_guided [OF m assms(2)])
  have c: "clock ?w1 = clock w"
    by (simp add: update_status_frame)
  have "\<forall>n. clock ((sleep_interval E ^^ n) ?w1) \<le> clock ?w1 + 15
             \<longrightarrow> \<not> mode_is_guided (obj ((sleep_interval E ^^ n) ?w1))"
    using assms(3) unfolding sm c by simp
  from wait_loop_timeout [OF this, of "''mode GUIDED''"] obtain n where
    wl: "wait_until E mode_is_guided 15 ''mode GUIDED'' ?w1
       = (Some (Raised TimeoutError ''Timed out waiting for mode GUIDED''),
          (sleep_interval E ^^ n) ?w1)"
    unfolding wait_until_def by auto
  have "takeoff_sequence E altitude w
          = (Some (Raised TimeoutError ''Timed out waiting for mode GUIDED''),
             (sleep_interval E ^^ n) ?w1)"
    using assms(1) sm wl by (simp add: takeoff_sequence_def then_do_def Let_def)
  moreover have "sent ((sleep_interval E ^^ n) ?w1) = sent w @
                [CommandLong (target_system l) (target_component l) MAV_CMD_DO_SET_MODE 0
                   [PInt 9, PInt gid, PInt 0, PInt 0, PInt 0, PInt 0, PInt 0],
                 SetModeSend (target_system l) 9 gid]"
    by (simp add: sleep_trace_frame update_status_frame)
  moreover have "emitted ((sleep_interval E ^^ n) ?w1) = emitted w @
                [Telemetry (state (obj ?wu))]"
    by (simp add: sleep_trace_frame update_status_frame)
  ultimately show ?thesis by blast
qed

text \<open>Without a link the sequence fails at once and sends nothing.\<close>

lemma takeoff_sequence_no_link:
  "master (obj w) = None \<Longrightarrow>
     takeoff_sequence E altitude w
       = (Some (Raised RuntimeError ''Vehicle connection not ready''), w)"
  by (simp add: takeoff_sequence_def)

text \<open>
  Claim C1. Take a \<open>takeoff\<close> command on a world with a link whose mode table knows
  GUIDED, so that the first wait is reached. Suppose that at every poll of that wait
  that happens within its 15 s, the mode of the state, in upper case, is not GUIDED.
  Then \<open>takeoff_sequence\<close> raises the timeout error of the first wait, for every
  altitude. \<open>execute_command\<close> returns normally and adds to the output the telemetry of
  the first status, one \<open>takeoff_result\<close> with \<open>ok\<close> false and the text of the timeout as
  its error, and the log line of the failure. What it sends through the link is the two
  mode commands and nothing else: no arm command and no takeoff command.
\<close>

theorem takeoff_timeout_sends_no_arm:
  assumes "dict_get d ''type'' = PStr ''takeoff''"
    and "master (obj w) = Some l"
    and "map_of (case mode_mapping l of None \<Rightarrow> [] | Some mp \<Rightarrow> mp) ''GUIDED'' = Some gid"
    and "\<forall>n. clock ((sleep_interval E ^^ n)
                 (snd (set_mode E ''GUIDED''
                        (update_status E ''TAKEOFF: switching to GUIDED'' None w))))
               \<le> clock w + 15
             \<longrightarrow> \<not> mode_is_guided (obj ((sleep_interval E ^^ n)
                 (snd (set_mode E ''GUIDED''
                        (update_status E ''TAKEOFF: switching to GUIDED'' None w)))))"
  shows "(\<exists>w'. takeoff_sequence E altitude w
                 = (Some (Raised TimeoutError ''Timed out waiting for mode GUIDED''), w'))
       \<and> fst (execute_command E (PDict d) w) = None
       \<and> emitted (snd (execute_command E (PDict d) w))
           = emitted w @
             [Telemetry (state (obj (update_status E ''TAKEOFF: switching to GUIDED'' None w))),
              CmdResult ''takeoff_result'' False (dict_get d ''request_id'')
                [(''error'', PStr ''Timed out waiting for mode GUIDED'')],
              Log ''Command takeoff failed: Timed out waiting for mode GUIDED'' ''error'']
       \<and> sent (snd (execute_command E (PDict d) w))
           = sent w @
             [CommandLong (target_system l) (target_component l) MAV_CMD_DO_SET_MODE 0
                [PInt 9, PInt gid, PInt 0, PInt 0, PInt 0, PInt 0, PInt 0],
              SetModeSend (target_system l) 9 gid]
       \<and> (\<forall>c \<in> set (drop (length (sent w)) (sent (snd (execute_command E (PDict d) w)))).
             \<not> is_arm_command c \<and> \<not> is_takeoff_command c)"
proof -
  define alt_value where "alt_value =
     (let v = (case py_float E (dict_get d ''altitude'') of Inr f \<Rightarrow> f | Inl e \<Rightarrow> Fin 30)
      in if fgt v (Fin 0) then v else Fin 30)"
  obtain w1 where t1: "takeoff_sequence E altitude w
                 = (Some (Raised TimeoutError ''Timed out waiting for mode GUIDED''), w1)"
    using takeoff_sequence_timeout [OF assms(2-4), of altitude] by blast
  obtain w' where t: "takeoff_sequence E alt_value w
                 = (Some (Raised TimeoutError ''Timed out waiting for mode GUIDED''), w')"
    and s: "sent w' = sent w @
             [CommandLong (target_system l) (target_component l) MAV_CMD_DO_SET_MODE 0
                [PInt 9, PInt gid, PInt 0, PInt 0, PInt 0, PInt 0, PInt 0],
              SetModeSend (target_system l) 9 gid]"
    and e: "emitted w' = emitted w @
             [Telemetry (state (obj (update_status E ''TAKEOFF: switching to GUIDED'' None w)))]"
    using takeoff_sequence_timeout [OF assms(2-4), of alt_value] by blast
  have hc: "handle_command E d w
              = (Inl (Raised TimeoutError ''Timed out waiting for mode GUIDED''), w')"
    using assms(1) t by (simp add: handle_command_def Let_def alt_value_def)
  have ex: "execute_command E (PDict d) w
              = (None, log_line ''Command takeoff failed: Timed out waiting for mode GUIDED''
                   ''error''
                   (emit (CmdResult ''takeoff_result'' False (dict_get d ''request_id'')
                            [(''error'', PStr ''Timed out waiting for mode GUIDED'')]) w'))"
    using assms(1) hc by (simp add: execute_command_def Let_def result_types_def py_str_def)
  show ?thesis
    unfolding ex using t1 s e
    by (simp add: log_line_def emit_def MAV_CMD_DO_SET_MODE_def
        MAV_CMD_COMPONENT_ARM_DISARM_def MAV_CMD_NAV_TAKEOFF_def)
qed

text \<open>
  A takeoff to 30 m on a linked vehicle whose mode stays \<open>Unknown\<close>: the two mode commands
  are all that is sent, and the one result is the failure.
\<close>

theorem takeoff_timeout_sends_no_arm_witness:
  "sent (snd (execute_command sample_env
       (PDict [(''type'', PStr ''takeoff''), (''request_id'', PInt 7), (''altitude'', PInt 30)])
       (linked_world 100)))
     = [CommandLong 1 1 176 0 [PInt 9, PInt 4, PInt 0, PInt 0, PInt 0, PInt 0, PInt 0],
        SetModeSend 1 9 4]
   \<and> filter is_result (emitted (snd (execute_command sample_env
       (PDict [(''type'', PStr ''takeoff''), (''request_id'', PInt 7), (''altitude'', PInt 30)])
       (linked_world 100))))
     = [CmdResult ''takeoff_result'' False (PInt 7)
          [(''error'', PStr ''Timed out waiting for mode GUIDED'')]]"
proof -
  let ?d = "[(''type'', PStr ''takeoff''), (''request_id'', PInt 7), (''altitude'', PInt 30)]"
  let ?w1 = "snd (set_mode sample_env ''GUIDED''
                (update_status sample_env ''TAKEOFF: switching to GUIDED'' None
                   (linked_world 100)))"
  have a: "dict_get ?d ''type'' = PStr ''takeoff''"
    by (simp add: dict_get_def)
  have b: "master (obj (linked_world 100)) = Some sample_link"
    by (simp add: linked_world_def)
  have c: "map_of (case mode_mapping sample_link of None \<Rightarrow> [] | Some mp \<Rightarrow> mp) ''GUIDED''
             = Some 4"
    by (simp add: sample_link_def)
  have stay: "obj ((sleep_interval sample_env ^^ n) v) = obj v" for n v
    by (induction n) (simp_all add: sleep_interval_def sample_env_def)
  have "mode (state (obj ?w1)) = ''Unknown''"
    by (simp add: set_mode_guided [OF _ c] update_status_frame b)
       (simp add: update_status_def Let_def world_defs sample_defs)
  then have ng: "\<not> mode_is_guided (obj ?w1)"
    by (simp add: mode_is_guided_def upper_def upper_char_def)
  have e: "\<forall>n. clock ((sleep_interval sample_env ^^ n) ?w1) \<le> clock (linked_world 100) + 15
             \<longrightarrow> \<not> mode_is_guided (obj ((sleep_interval sample_env ^^ n) ?w1))"
    using ng by (simp add: stay)
  show ?thesis
    using takeoff_timeout_sends_no_arm [OF a b c e, of "Fin 30"]
    by (simp add: dict_get_def sample_link_def linked_world_def MAV_CMD_DO_SET_MODE_def)
qed

end
